theory Spec2Isabelle
  imports Complex_Main
begin

section \<open>Python values\<close>

text \<open>
  The scanner of \<^verbatim>\<open>run.py\<close> works on Python floats. The parser, the fetcher, the
  driver and a first model of the estimator take amounts as real numbers: arithmetic is
  exact, and the special values of IEEE arithmetic (NaN, the infinities) are not among
  the amounts. A second model of the estimator, further down, works on floats with
  these special values and with overflow, for the properties that depend on them; it
  agrees with the first wherever every result stays finite. Every exception the source
  can raise is a value of \<open>py_error\<close>, and a function that can raise returns
  \<open>py_error + 'a\<close>.
\<close>

datatype py_error =
    IndexError
  | KeyError
  | TypeError
  | AttributeError
  | ValueError
  | ZeroDivisionError
  | StatisticsError
  | RequestException
  | HTTPError
  | RuntimeError

text \<open>True division \<^verbatim>\<open>a / b\<close> of floats raises on a zero divisor.\<close>

definition py_truediv :: "real \<Rightarrow> real \<Rightarrow> py_error + real" where
  "py_truediv a b = (if b = 0 then Inl ZeroDivisionError else Inr (a / b))"

text \<open>
  \<^verbatim>\<open>round(x, ndigits)\<close> rounds to the nearest multiple of \<open>10 ^ -ndigits\<close>, a tie going
  to the even neighbour.
\<close>

definition round_half_even :: "real \<Rightarrow> int" where
  "round_half_even x =
     (let f = \<lfloor>x\<rfloor>; d = x - of_int f
      in if d < 1 / 2 then f
         else if d > 1 / 2 then f + 1
         else if even f then f else f + 1)"

definition py_round :: "real \<Rightarrow> nat \<Rightarrow> real" where
  "py_round x ndigits = of_int (round_half_even (x * 10 ^ ndigits)) / 10 ^ ndigits"

text \<open>
  \<^verbatim>\<open>statistics.median\<close> of the standard library:
  \<^verbatim>\<open>
  data = sorted(data); n = len(data)
  if n == 0: raise StatisticsError("no median for empty data")
  if n % 2 == 1: return data[n // 2]
  else: i = n // 2; return (data[i - 1] + data[i]) / 2
  \<close>
\<close>

definition median :: "real list \<Rightarrow> py_error + real" where
  "median xs =
     (let data = sort xs; n = length data
      in if n = 0 then Inl StatisticsError
         else if n mod 2 = 1 then Inr (data ! (n div 2))
         else (let i = n div 2 in Inr ((data ! (i - 1) + data ! i) / 2)))"

section \<open>The estimator\<close>

text \<open>
  \<^verbatim>\<open>compute_row\<close> on real amounts: the estimator as it runs while every value is a
  finite number. The model on floats with NaN, the infinities and overflow follows it,
  and the two are proved equal where every result stays finite.
\<close>

definition MIN_PROFIT_GBP :: real where
  "MIN_PROFIT_GBP = 25.0"

definition MIN_MARGIN :: real where
  "MIN_MARGIN = 0.25"

text \<open>An element of the list \<^verbatim>\<open>parse_active_items\<close> returns.\<close>

record active_listing =
  active_title :: string
  active_item_id :: string
  active_url :: string
  active_price_gbp :: real
  active_shipping_gbp :: real
  active_buy_price_gbp :: real

text \<open>The dictionary \<^verbatim>\<open>compute_row\<close> returns; its keys carry the prefix \<open>row_\<close>.\<close>

record opportunity_row =
  row_keyword :: string
  row_active_title :: string
  row_active_item_id :: string
  row_active_url :: string
  row_active_buy_price_gbp :: real
  row_median_sold_price_gbp :: real
  row_sold_sample_size :: nat
  row_ebay_fee_gbp :: real
  row_payment_fee_gbp :: real
  row_shipping_out_gbp :: real
  row_expected_profit_gbp :: real
  row_margin_percent :: real

text \<open>
  The local variables of \<^verbatim>\<open>compute_row\<close> after its line 234, before the two
  threshold tests.
\<close>

record estimate =
  median_sold :: real
  ebay_fee :: real
  payment_fee :: real
  active_buy :: real
  expected_profit :: real
  margin :: real

definition compute_estimate ::
  "active_listing \<Rightarrow> real list \<Rightarrow> real \<Rightarrow> real \<Rightarrow> real \<Rightarrow> real \<Rightarrow> py_error + estimate" where
  "compute_estimate active sold_totals ebay_fee_rate payment_fee_rate payment_fixed_fee shipping_out =
     (case median sold_totals of
        Inl e \<Rightarrow> Inl e
      | Inr m \<Rightarrow>
          (let fee = m * ebay_fee_rate;
               pay = m * payment_fee_rate + payment_fixed_fee;
               buy = active_buy_price_gbp active;
               profit = m - fee - pay - shipping_out - buy
           in case (if buy > 0 then py_truediv profit buy else Inr (- 1)) of
                Inl e \<Rightarrow> Inl e
              | Inr mg \<Rightarrow>
                  Inr \<lparr>median_sold = m, ebay_fee = fee, payment_fee = pay,
                       active_buy = buy, expected_profit = profit, margin = mg\<rparr>))"

definition compute_row ::
  "string \<Rightarrow> active_listing \<Rightarrow> real list \<Rightarrow> real \<Rightarrow> real \<Rightarrow> real \<Rightarrow> real
     \<Rightarrow> py_error + opportunity_row option" where
  "compute_row kw active sold_totals ebay_fee_rate payment_fee_rate payment_fixed_fee shipping_out =
     (if length sold_totals = 0 then Inr None
      else
        case compute_estimate active sold_totals ebay_fee_rate payment_fee_rate
               payment_fixed_fee shipping_out of
          Inl e \<Rightarrow> Inl e
        | Inr est \<Rightarrow>
            if expected_profit est < MIN_PROFIT_GBP then Inr None
            else if margin est < MIN_MARGIN then Inr None
            else
              Inr (Some
                \<lparr>row_keyword = kw,
                 row_active_title = active_title active,
                 row_active_item_id = active_item_id active,
                 row_active_url = active_url active,
                 row_active_buy_price_gbp = py_round (active_buy est) 2,
                 row_median_sold_price_gbp = py_round (median_sold est) 2,
                 row_sold_sample_size = length sold_totals,
                 row_ebay_fee_gbp = py_round (ebay_fee est) 2,
                 row_payment_fee_gbp = py_round (payment_fee est) 2,
                 row_shipping_out_gbp = py_round shipping_out 2,
                 row_expected_profit_gbp = py_round (expected_profit est) 2,
                 row_margin_percent = py_round (margin est * 100) 1\<rparr>))"

text \<open>
  A value has \<open>n\<close> decimal places when scaling it by \<open>10 ^ n\<close> gives a whole number.
\<close>

definition has_decimals :: "nat \<Rightarrow> real \<Rightarrow> bool" where
  "has_decimals n v \<longleftrightarrow> of_int \<lfloor>v * 10 ^ n\<rfloor> = v * 10 ^ n"

section \<open>The estimator on floats with special values\<close>

text \<open>
  A Python float is a finite number, an infinity or NaN, and \<^verbatim>\<open>compute_row\<close> can meet
  all of them: a price string such as \<^verbatim>\<open>"NaN"\<close> converts, and the sum of two large
  finite prices overflows. This second model of the estimator keeps these values. A
  finite result is kept exact (the rounding of the last bit, and underflow, are not
  modelled), but a result at or beyond \<open>2 ^ 1024 - 2 ^ 970\<close>, where the nearest double
  is an infinity, becomes that infinity. The sign of zero is not modelled.
\<close>

datatype pyfloat = Fin real | PInf | NInf | NaN

definition OVERFLOW :: real where
  "OVERFLOW = 2 ^ 1024 - 2 ^ 970"

definition fl :: "real \<Rightarrow> pyfloat" where
  "fl x = (if OVERFLOW \<le> x then PInf else if x \<le> - OVERFLOW then NInf else Fin x)"

fun fneg :: "pyfloat \<Rightarrow> pyfloat" where
  "fneg (Fin a) = Fin (- a)"
| "fneg PInf = NInf"
| "fneg NInf = PInf"
| "fneg NaN = NaN"

fun fadd :: "pyfloat \<Rightarrow> pyfloat \<Rightarrow> pyfloat" where
  "fadd (Fin a) (Fin b) = fl (a + b)"
| "fadd (Fin a) PInf = PInf"
| "fadd (Fin a) NInf = NInf"
| "fadd (Fin a) NaN = NaN"
| "fadd PInf (Fin b) = PInf"
| "fadd PInf PInf = PInf"
| "fadd PInf NInf = NaN"
| "fadd PInf NaN = NaN"
| "fadd NInf (Fin b) = NInf"
| "fadd NInf PInf = NaN"
| "fadd NInf NInf = NInf"
| "fadd NInf NaN = NaN"
| "fadd NaN b = NaN"

definition fsub :: "pyfloat \<Rightarrow> pyfloat \<Rightarrow> pyfloat" where
  "fsub a b = fadd a (fneg b)"

text \<open>The product of an infinity and a finite number: its sign, or NaN for zero.\<close>

definition inf_times :: "bool \<Rightarrow> real \<Rightarrow> pyfloat" where
  "inf_times positive a =
     (if a = 0 then NaN else if (0 < a) = positive then PInf else NInf)"

fun fmul :: "pyfloat \<Rightarrow> pyfloat \<Rightarrow> pyfloat" where
  "fmul (Fin a) (Fin b) = fl (a * b)"
| "fmul (Fin a) PInf = inf_times True a"
| "fmul (Fin a) NInf = inf_times False a"
| "fmul (Fin a) NaN = NaN"
| "fmul PInf (Fin b) = inf_times True b"
| "fmul PInf PInf = PInf"
| "fmul PInf NInf = NInf"
| "fmul PInf NaN = NaN"
| "fmul NInf (Fin b) = inf_times False b"
| "fmul NInf PInf = NInf"
| "fmul NInf NInf = PInf"
| "fmul NInf NaN = NaN"
| "fmul NaN b = NaN"

text \<open>
  True division: a zero divisor raises, whatever the dividend; an infinity over a
  finite number keeps or flips its sign; a finite number over an infinity is zero.
\<close>

fun fdiv :: "pyfloat \<Rightarrow> pyfloat \<Rightarrow> py_error + pyfloat" where
  "fdiv (Fin a) (Fin b) = (if b = 0 then Inl ZeroDivisionError else Inr (fl (a / b)))"
| "fdiv PInf (Fin b) =
     (if b = 0 then Inl ZeroDivisionError else Inr (if 0 < b then PInf else NInf))"
| "fdiv NInf (Fin b) =
     (if b = 0 then Inl ZeroDivisionError else Inr (if 0 < b then NInf else PInf))"
| "fdiv NaN (Fin b) = (if b = 0 then Inl ZeroDivisionError else Inr NaN)"
| "fdiv (Fin a) PInf = Inr (Fin 0)"
| "fdiv (Fin a) NInf = Inr (Fin 0)"
| "fdiv PInf PInf = Inr NaN"
| "fdiv PInf NInf = Inr NaN"
| "fdiv NInf PInf = Inr NaN"
| "fdiv NInf NInf = Inr NaN"
| "fdiv NaN PInf = Inr NaN"
| "fdiv NaN NInf = Inr NaN"
| "fdiv a NaN = Inr NaN"

text \<open>
  The comparisons \<^verbatim>\<open>a < b\<close> and \<^verbatim>\<open>a <= b\<close>: false as soon as one side is NaN.
\<close>

fun flt :: "pyfloat \<Rightarrow> pyfloat \<Rightarrow> bool" where
  "flt (Fin a) (Fin b) = (a < b)"
| "flt (Fin a) PInf = True"
| "flt (Fin a) NInf = False"
| "flt (Fin a) NaN = False"
| "flt PInf b = False"
| "flt NInf (Fin b) = True"
| "flt NInf PInf = True"
| "flt NInf NInf = False"
| "flt NInf NaN = False"
| "flt NaN b = False"

fun fle :: "pyfloat \<Rightarrow> pyfloat \<Rightarrow> bool" where
  "fle (Fin a) (Fin b) = (a \<le> b)"
| "fle (Fin a) PInf = True"
| "fle (Fin a) NInf = False"
| "fle (Fin a) NaN = False"
| "fle PInf (Fin b) = False"
| "fle PInf PInf = True"
| "fle PInf NInf = False"
| "fle PInf NaN = False"
| "fle NInf NaN = False"
| "fle NInf b = True"
| "fle NaN b = False"

text \<open>
  \<^verbatim>\<open>round(x, ndigits)\<close> returns NaN and the infinities as they are. On a finite double
  it rounds the exact value of the double, a tie going to the even neighbour, which is
  \<open>py_round\<close>; with two digits or one the result of a finite double is in range.
\<close>

fun py_round_f :: "pyfloat \<Rightarrow> nat \<Rightarrow> pyfloat" where
  "py_round_f (Fin x) ndigits = Fin (py_round x ndigits)"
| "py_round_f PInf ndigits = PInf"
| "py_round_f NInf ndigits = NInf"
| "py_round_f NaN ndigits = NaN"

text \<open>
  \<^verbatim>\<open>statistics.median\<close> on floats. \<^verbatim>\<open>sorted\<close> compares with \<^verbatim>\<open><\<close>; on a sample
  with a NaN the order it leaves depends on the sorting algorithm, so the sort is a
  parameter \<open>srt\<close> of the model, of which the theorems ask only that it keeps the
  length of the list.
\<close>

definition median_f :: "(pyfloat list \<Rightarrow> pyfloat list) \<Rightarrow> pyfloat list \<Rightarrow> py_error + pyfloat" where
  "median_f srt xs =
     (let data = srt xs; n = length data
      in if n = 0 then Inl StatisticsError
         else if n mod 2 = 1 then Inr (data ! (n div 2))
         else (let i = n div 2 in fdiv (fadd (data ! (i - 1)) (data ! i)) (Fin 2)))"

text \<open>An insertion sort on \<^verbatim>\<open><\<close>, to run the model on a concrete sample.\<close>

fun insert_f :: "pyfloat \<Rightarrow> pyfloat list \<Rightarrow> pyfloat list" where
  "insert_f x [] = [x]"
| "insert_f x (y # ys) = (if flt y x then y # insert_f x ys else x # y # ys)"

definition sorted_f :: "pyfloat list \<Rightarrow> pyfloat list" where
  "sorted_f xs = foldr insert_f xs []"

text \<open>The listing, the local variables and the row of \<^verbatim>\<open>compute_row\<close>, on floats.\<close>

record active_listing_f =
  f_active_title :: string
  f_active_item_id :: string
  f_active_url :: string
  f_active_price_gbp :: pyfloat
  f_active_shipping_gbp :: pyfloat
  f_active_buy_price_gbp :: pyfloat

record opportunity_row_f =
  f_row_keyword :: string
  f_row_active_title :: string
  f_row_active_item_id :: string
  f_row_active_url :: string
  f_row_active_buy_price_gbp :: pyfloat
  f_row_median_sold_price_gbp :: pyfloat
  f_row_sold_sample_size :: nat
  f_row_ebay_fee_gbp :: pyfloat
  f_row_payment_fee_gbp :: pyfloat
  f_row_shipping_out_gbp :: pyfloat
  f_row_expected_profit_gbp :: pyfloat
  f_row_margin_percent :: pyfloat

record estimate_f =
  f_median_sold :: pyfloat
  f_ebay_fee :: pyfloat
  f_payment_fee :: pyfloat
  f_active_buy :: pyfloat
  f_expected_profit :: pyfloat
  f_margin :: pyfloat

definition compute_estimate_f ::
  "(pyfloat list \<Rightarrow> pyfloat list) \<Rightarrow> active_listing_f \<Rightarrow> pyfloat list
     \<Rightarrow> pyfloat \<Rightarrow> pyfloat \<Rightarrow> pyfloat \<Rightarrow> pyfloat \<Rightarrow> py_error + estimate_f" where
  "compute_estimate_f srt active sold_totals ebay_fee_rate payment_fee_rate payment_fixed_fee
       shipping_out =
     (case median_f srt sold_totals of
        Inl e \<Rightarrow> Inl e
      | Inr m \<Rightarrow>
          (let fee = fmul m ebay_fee_rate;
               pay = fadd (fmul m payment_fee_rate) payment_fixed_fee;
               buy = f_active_buy_price_gbp active;
               profit = fsub (fsub (fsub (fsub m fee) pay) shipping_out) buy
           in case (if flt (Fin 0) buy then fdiv profit buy else Inr (Fin (- 1))) of
                Inl e \<Rightarrow> Inl e
              | Inr mg \<Rightarrow>
                  Inr \<lparr>f_median_sold = m, f_ebay_fee = fee, f_payment_fee = pay,
                       f_active_buy = buy, f_expected_profit = profit, f_margin = mg\<rparr>))"

definition compute_row_f ::
  "(pyfloat list \<Rightarrow> pyfloat list) \<Rightarrow> string \<Rightarrow> active_listing_f \<Rightarrow> pyfloat list
     \<Rightarrow> pyfloat \<Rightarrow> pyfloat \<Rightarrow> pyfloat \<Rightarrow> pyfloat \<Rightarrow> py_error + opportunity_row_f option" where
  "compute_row_f srt kw active sold_totals ebay_fee_rate payment_fee_rate payment_fixed_fee
       shipping_out =
     (if length sold_totals = 0 then Inr None
      else
        case compute_estimate_f srt active sold_totals ebay_fee_rate payment_fee_rate
               payment_fixed_fee shipping_out of
          Inl e \<Rightarrow> Inl e
        | Inr est \<Rightarrow>
            if flt (f_expected_profit est) (Fin MIN_PROFIT_GBP) then Inr None
            else if flt (f_margin est) (Fin MIN_MARGIN) then Inr None
            else
              Inr (Some
                \<lparr>f_row_keyword = kw,
                 f_row_active_title = f_active_title active,
                 f_row_active_item_id = f_active_item_id active,
                 f_row_active_url = f_active_url active,
                 f_row_active_buy_price_gbp = py_round_f (f_active_buy est) 2,
                 f_row_median_sold_price_gbp = py_round_f (f_median_sold est) 2,
                 f_row_sold_sample_size = length sold_totals,
                 f_row_ebay_fee_gbp = py_round_f (f_ebay_fee est) 2,
                 f_row_payment_fee_gbp = py_round_f (f_payment_fee est) 2,
                 f_row_shipping_out_gbp = py_round_f shipping_out 2,
                 f_row_expected_profit_gbp = py_round_f (f_expected_profit est) 2,
                 f_row_margin_percent = py_round_f (fmul (f_margin est) (Fin 100)) 1\<rparr>))"

text \<open>
  A field is rounded to \<open>n\<close> decimal places when it is a finite number with \<open>n\<close> decimal
  places.
\<close>

fun rounded_to :: "nat \<Rightarrow> pyfloat \<Rightarrow> bool" where
  "rounded_to n (Fin x) = has_decimals n x"
| "rounded_to n PInf = False"
| "rounded_to n NInf = False"
| "rounded_to n NaN = False"

text \<open>
  A field \<open>f\<close> holds the value \<open>v\<close> rounded to \<open>n\<close> decimal places: for a finite \<open>v\<close>, a
  finite number with \<open>n\<close> decimal places within half a unit of the last place of \<open>v\<close>;
  for NaN or an infinity, \<open>v\<close> itself.
\<close>

fun rounds_to :: "nat \<Rightarrow> pyfloat \<Rightarrow> pyfloat \<Rightarrow> bool" where
  "rounds_to n (Fin x) f = (case f of Fin y \<Rightarrow> has_decimals n y \<and> \<bar>y - x\<bar> \<le> 1 / (2 * 10 ^ n) | _ \<Rightarrow> False)"
| "rounds_to n PInf f = (f = PInf)"
| "rounds_to n NInf f = (f = NInf)"
| "rounds_to n NaN f = (f = NaN)"

fun is_finite :: "pyfloat \<Rightarrow> bool" where
  "is_finite (Fin x) = True"
| "is_finite PInf = False"
| "is_finite NInf = False"
| "is_finite NaN = False"

text \<open>
  The two models side by side. A real amount is a finite float; a result stays finite
  when it lies strictly between the two overflow bounds. \<open>stays_finite\<close> says so of every
  result the estimator computes on the way to an estimate.
\<close>

definition in_range :: "real \<Rightarrow> bool" where
  "in_range x \<longleftrightarrow> - OVERFLOW < x \<and> x < OVERFLOW"

definition listing_f :: "active_listing \<Rightarrow> active_listing_f" where
  "listing_f a =
     \<lparr>f_active_title = active_title a,
      f_active_item_id = active_item_id a,
      f_active_url = active_url a,
      f_active_price_gbp = Fin (active_price_gbp a),
      f_active_shipping_gbp = Fin (active_shipping_gbp a),
      f_active_buy_price_gbp = Fin (active_buy_price_gbp a)\<rparr>"

definition estimate_f_of :: "estimate \<Rightarrow> estimate_f" where
  "estimate_f_of est =
     \<lparr>f_median_sold = Fin (median_sold est),
      f_ebay_fee = Fin (ebay_fee est),
      f_payment_fee = Fin (payment_fee est),
      f_active_buy = Fin (active_buy est),
      f_expected_profit = Fin (expected_profit est),
      f_margin = Fin (margin est)\<rparr>"

definition row_f_of :: "opportunity_row \<Rightarrow> opportunity_row_f" where
  "row_f_of r =
     \<lparr>f_row_keyword = row_keyword r,
      f_row_active_title = row_active_title r,
      f_row_active_item_id = row_active_item_id r,
      f_row_active_url = row_active_url r,
      f_row_active_buy_price_gbp = Fin (row_active_buy_price_gbp r),
      f_row_median_sold_price_gbp = Fin (row_median_sold_price_gbp r),
      f_row_sold_sample_size = row_sold_sample_size r,
      f_row_ebay_fee_gbp = Fin (row_ebay_fee_gbp r),
      f_row_payment_fee_gbp = Fin (row_payment_fee_gbp r),
      f_row_shipping_out_gbp = Fin (row_shipping_out_gbp r),
      f_row_expected_profit_gbp = Fin (row_expected_profit_gbp r),
      f_row_margin_percent = Fin (row_margin_percent r)\<rparr>"

definition stays_finite :: "estimate \<Rightarrow> real \<Rightarrow> real \<Rightarrow> bool" where
  "stays_finite est payment_fee_rate shipping_out \<longleftrightarrow>
     in_range (2 * median_sold est) \<and>
     in_range (ebay_fee est) \<and>
     in_range (median_sold est * payment_fee_rate) \<and>
     in_range (payment_fee est) \<and>
     in_range (median_sold est - ebay_fee est) \<and>
     in_range (median_sold est - ebay_fee est - payment_fee est) \<and>
     in_range (median_sold est - ebay_fee est - payment_fee est - shipping_out) \<and>
     in_range (expected_profit est) \<and>
     in_range (margin est) \<and>
     in_range (margin est * 100)"

section \<open>Search responses\<close>

text \<open>
  A response of the Finding API, as \<^verbatim>\<open>r.json()\<close> returns it: a Python value built
  from \<^verbatim>\<open>None\<close>, booleans, numbers, strings, lists and dictionaries with string keys.
\<close>

datatype json =
    JNull
  | JBool bool
  | JNum real
  | JStr string
  | JList "json list"
  | JDict "(string \<times> json) list"

definition bind_err :: "py_error + 'a \<Rightarrow> ('a \<Rightarrow> py_error + 'b) \<Rightarrow> py_error + 'b" where
  "bind_err m f = (case m of Inl e \<Rightarrow> Inl e | Inr x \<Rightarrow> f x)"

text \<open>\<^verbatim>\<open>d.get(k, dflt)\<close>: only a dictionary has the method.\<close>

fun py_get :: "json \<Rightarrow> string \<Rightarrow> json \<Rightarrow> py_error + json" where
  "py_get (JDict kvs) k dflt = Inr (case map_of kvs k of None \<Rightarrow> dflt | Some v \<Rightarrow> v)"
| "py_get JNull k dflt = Inl AttributeError"
| "py_get (JBool b) k dflt = Inl AttributeError"
| "py_get (JNum x) k dflt = Inl AttributeError"
| "py_get (JStr s) k dflt = Inl AttributeError"
| "py_get (JList vs) k dflt = Inl AttributeError"

text \<open>\<^verbatim>\<open>x[0]\<close>.\<close>

fun py_item0 :: "json \<Rightarrow> py_error + json" where
  "py_item0 (JList []) = Inl IndexError"
| "py_item0 (JList (v # vs)) = Inr v"
| "py_item0 (JStr []) = Inl IndexError"
| "py_item0 (JStr (c # cs)) = Inr (JStr [c])"
| "py_item0 (JDict kvs) = Inl KeyError"
| "py_item0 JNull = Inl TypeError"
| "py_item0 (JBool b) = Inl TypeError"
| "py_item0 (JNum x) = Inl TypeError"

text \<open>Truth value of an object, as \<^verbatim>\<open>or\<close> tests it.\<close>

fun py_truthy :: "json \<Rightarrow> bool" where
  "py_truthy JNull = False"
| "py_truthy (JBool b) = b"
| "py_truthy (JNum x) = (x \<noteq> 0)"
| "py_truthy (JStr s) = (s \<noteq> [])"
| "py_truthy (JList vs) = (vs \<noteq> [])"
| "py_truthy (JDict kvs) = (kvs \<noteq> [])"

definition py_or :: "json \<Rightarrow> json \<Rightarrow> json" where
  "py_or a b = (if py_truthy a then a else b)"

text \<open>
  \<^verbatim>\<open>str.strip()\<close> and \<^verbatim>\<open>str.lower()\<close>, on the ASCII range (the white space and
  the capital letters beyond it, such as U+0085 and U+00A0, are not modelled); a value
  that is not a string has neither method.
\<close>

definition is_space :: "char \<Rightarrow> bool" where
  "is_space c = (let n = (of_char c :: nat) in (9 \<le> n \<and> n \<le> 13) \<or> (28 \<le> n \<and> n \<le> 32))"

definition strip :: "string \<Rightarrow> string" where
  "strip s = rev (dropWhile is_space (rev (dropWhile is_space s)))"

definition lower_char :: "char \<Rightarrow> char" where
  "lower_char c =
     (case map_of (zip ''ABCDEFGHIJKLMNOPQRSTUVWXYZ'' ''abcdefghijklmnopqrstuvwxyz'') c of
        None \<Rightarrow> c
      | Some l \<Rightarrow> l)"

fun py_strip :: "json \<Rightarrow> py_error + string" where
  "py_strip (JStr s) = Inr (strip s)"
| "py_strip JNull = Inl AttributeError"
| "py_strip (JBool b) = Inl AttributeError"
| "py_strip (JNum x) = Inl AttributeError"
| "py_strip (JList vs) = Inl AttributeError"
| "py_strip (JDict kvs) = Inl AttributeError"

fun py_lower :: "json \<Rightarrow> py_error + string" where
  "py_lower (JStr s) = Inr (map lower_char s)"
| "py_lower JNull = Inl AttributeError"
| "py_lower (JBool b) = Inl AttributeError"
| "py_lower (JNum x) = Inl AttributeError"
| "py_lower (JList vs) = Inl AttributeError"
| "py_lower (JDict kvs) = Inl AttributeError"

text \<open>
  \<^verbatim>\<open>float(v)\<close> and \<^verbatim>\<open>int(v)\<close>. How the builtins read a string is a parameter:
  \<open>sf s\<close> and \<open>si s\<close> are \<open>None\<close> where the builtin raises \<^verbatim>\<open>ValueError\<close>.
  Two cases of \<^verbatim>\<open>float\<close> have no counterpart among the real amounts: a string such as
  \<^verbatim>\<open>"nan"\<close> or \<^verbatim>\<open>"inf"\<close>, which converts to a special value, and an integer
  beyond the range of doubles, which raises \<^verbatim>\<open>OverflowError\<close>.
\<close>

fun py_float :: "(string \<Rightarrow> real option) \<Rightarrow> json \<Rightarrow> py_error + real" where
  "py_float sf JNull = Inl TypeError"
| "py_float sf (JBool b) = Inr (if b then 1 else 0)"
| "py_float sf (JNum x) = Inr x"
| "py_float sf (JStr s) = (case sf s of None \<Rightarrow> Inl ValueError | Some x \<Rightarrow> Inr x)"
| "py_float sf (JList vs) = Inl TypeError"
| "py_float sf (JDict kvs) = Inl TypeError"

fun py_int :: "(string \<Rightarrow> int option) \<Rightarrow> json \<Rightarrow> py_error + int" where
  "py_int si JNull = Inl TypeError"
| "py_int si (JBool b) = Inr (if b then 1 else 0)"
| "py_int si (JNum x) = Inr (if 0 \<le> x then \<lfloor>x\<rfloor> else \<lceil>x\<rceil>)"
| "py_int si (JStr s) = (case si s of None \<Rightarrow> Inl ValueError | Some n \<Rightarrow> Inr n)"
| "py_int si (JList vs) = Inl TypeError"
| "py_int si (JDict kvs) = Inl TypeError"

text \<open>The elements a \<^verbatim>\<open>for\<close> loop visits.\<close>

fun py_iter :: "json \<Rightarrow> py_error + json list" where
  "py_iter (JList vs) = Inr vs"
| "py_iter (JStr s) = Inr (map (\<lambda>c. JStr [c]) s)"
| "py_iter (JDict kvs) = Inr (map (\<lambda>kv. JStr (fst kv)) kvs)"
| "py_iter JNull = Inl TypeError"
| "py_iter (JBool b) = Inl TypeError"
| "py_iter (JNum x) = Inl TypeError"

text \<open>\<^verbatim>\<open>xs[:n]\<close>: a negative bound counts from the end.\<close>

definition py_slice_to :: "'a list \<Rightarrow> int \<Rightarrow> 'a list" where
  "py_slice_to xs n = (if 0 \<le> n then take (nat n) xs else take (nat (int (length xs) + n)) xs)"

section \<open>The response parser\<close>

text \<open>The idiom \<^verbatim>\<open>d.get(k, dflt)[0]\<close> of the source.\<close>

definition unwrap :: "json \<Rightarrow> string \<Rightarrow> json \<Rightarrow> py_error + json" where
  "unwrap d k dflt = bind_err (py_get d k dflt) py_item0"

text \<open>\<^verbatim>\<open>(it.get(k, [""])[0] or "").strip()\<close>.\<close>

definition text_field :: "json \<Rightarrow> string \<Rightarrow> py_error + string" where
  "text_field it k =
     bind_err (unwrap it k (JList [JStr []])) (\<lambda>v. py_strip (py_or v (JStr [])))"

text \<open>\<^verbatim>\<open>_get_price\<close>: any exception of the lookup or of the conversion gives \<^verbatim>\<open>None\<close>.\<close>

definition get_price :: "(string \<Rightarrow> real option) \<Rightarrow> json \<Rightarrow> real option" where
  "get_price sf obj =
     (case bind_err (py_get obj ''__value__'' JNull) (py_float sf) of
        Inl e \<Rightarrow> None
      | Inr x \<Rightarrow> Some x)"

text \<open>
  Lines 89 to 95 (and 121 to 127): the shipping cost read from the value under
  \<^verbatim>\<open>shippingServiceCost\<close>.
\<close>

fun shipping_of :: "(string \<Rightarrow> real option) \<Rightarrow> json \<Rightarrow> real" where
  "shipping_of sf (JList (x # xs)) = (case get_price sf x of None \<Rightarrow> 0 | Some v \<Rightarrow> v)"
| "shipping_of sf (JList []) = 0"
| "shipping_of sf JNull = 0"
| "shipping_of sf (JBool b) = 0"
| "shipping_of sf (JNum x) = 0"
| "shipping_of sf (JStr s) = 0"
| "shipping_of sf (JDict kvs) = 0"

text \<open>
  Lines 85 to 95, which both parsers share (117 to 127 in the second): the price, if one
  could be read, and the shipping cost of one item.
\<close>

definition price_and_shipping ::
  "(string \<Rightarrow> real option) \<Rightarrow> json \<Rightarrow> py_error + (real option \<times> real)" where
  "price_and_shipping sf it =
     bind_err (unwrap it ''sellingStatus'' (JList [JDict []])) (\<lambda>selling.
     bind_err (unwrap selling ''currentPrice'' (JList [JDict []])) (\<lambda>price_obj.
     bind_err (unwrap it ''shippingInfo'' (JList [JDict []])) (\<lambda>ship_info.
     bind_err (py_get ship_info ''shippingServiceCost'' (JList [JDict []])) (\<lambda>ship_obj.
       Inr (get_price sf price_obj, shipping_of sf ship_obj)))))"

text \<open>
  One turn of the loop of \<^verbatim>\<open>parse_active_items\<close>; \<open>None\<close> is its \<^verbatim>\<open>continue\<close>.
  The response \<^verbatim>\<open>root\<close> of the source is \<open>rt\<close> here.
\<close>

definition parse_active_item ::
  "(string \<Rightarrow> real option) \<Rightarrow> json \<Rightarrow> py_error + active_listing option" where
  "parse_active_item sf it =
     bind_err (text_field it ''title'') (\<lambda>title.
     bind_err (text_field it ''itemId'') (\<lambda>item_id.
     bind_err (text_field it ''viewItemURL'') (\<lambda>url.
     bind_err (price_and_shipping sf it) (\<lambda>ps.
       case fst ps of
         None \<Rightarrow> Inr None
       | Some price \<Rightarrow>
           Inr (Some
             \<lparr>active_title = title,
              active_item_id = item_id,
              active_url = url,
              active_price_gbp = price,
              active_shipping_gbp = snd ps,
              active_buy_price_gbp = price + snd ps\<rparr>)))))"

fun parse_active_loop ::
  "(string \<Rightarrow> real option) \<Rightarrow> json list \<Rightarrow> active_listing list
     \<Rightarrow> py_error + active_listing list" where
  "parse_active_loop sf [] out = Inr out"
| "parse_active_loop sf (it # its) out =
     (case parse_active_item sf it of
        Inl e \<Rightarrow> Inl e
      | Inr None \<Rightarrow> parse_active_loop sf its out
      | Inr (Some a) \<Rightarrow> parse_active_loop sf its (out @ [a]))"

definition parse_active_items ::
  "(string \<Rightarrow> real option) \<Rightarrow> json \<Rightarrow> py_error + active_listing list" where
  "parse_active_items sf rt =
     bind_err (unwrap rt ''searchResult'' (JList [JDict []])) (\<lambda>sr.
     bind_err (py_get sr ''item'' (JList [])) (\<lambda>items.
     bind_err (py_iter items) (\<lambda>its. parse_active_loop sf its [])))"

fun parse_sold_loop ::
  "(string \<Rightarrow> real option) \<Rightarrow> json list \<Rightarrow> real list \<Rightarrow> py_error + real list" where
  "parse_sold_loop sf [] totals = Inr totals"
| "parse_sold_loop sf (it # its) totals =
     (case price_and_shipping sf it of
        Inl e \<Rightarrow> Inl e
      | Inr ps \<Rightarrow>
          (case fst ps of
             None \<Rightarrow> parse_sold_loop sf its totals
           | Some price \<Rightarrow> parse_sold_loop sf its (totals @ [price + snd ps])))"

definition parse_sold_totals :: "(string \<Rightarrow> real option) \<Rightarrow> json \<Rightarrow> py_error + real list" where
  "parse_sold_totals sf rt =
     bind_err (unwrap rt ''searchResult'' (JList [JDict []])) (\<lambda>sr.
     bind_err (py_get sr ''item'' (JList [])) (\<lambda>items.
     bind_err (py_iter items) (\<lambda>its. parse_sold_loop sf its [])))"

section \<open>Calls to the Finding API\<close>

text \<open>
  The parameters of one call that vary from call to call. The service version, the
  response format and the \<^verbatim>\<open>EndTimeFrom\<close> filter (a timestamp taken from the clock) are
  not modelled. A first-page call carries no page number.
\<close>

record request =
  req_operation :: string
  req_app_id :: string
  req_global_id :: string
  req_keywords :: string
  req_entries_per_page :: int
  req_page_number :: "int option"
  req_sort_order :: string
  req_sold_items_only :: bool

text \<open>
  What \<^verbatim>\<open>requests.get\<close> followed by \<^verbatim>\<open>raise_for_status\<close> and \<^verbatim>\<open>r.json()\<close> can give:
  the transport fails, the status is an error status, the body is not JSON, or the body
  is a value.
\<close>

datatype http_outcome = ConnectionFailed | BadStatus | NotJson | Body json

text \<open>
  The world outside the program: the answer of the network to each request, and the two
  string conversions of the language.
\<close>

record env =
  net :: "request \<Rightarrow> http_outcome"
  str_float :: "string \<Rightarrow> real option"
  str_int :: "string \<Rightarrow> int option"

text \<open>
  Lines 60 to 64: the exception raised on a non-success acknowledgement. Building the
  message reads \<^verbatim>\<open>errorId\<close> and \<^verbatim>\<open>message\<close> of every error and can itself raise; the
  text of the message is not modelled.
\<close>

fun error_parts :: "json list \<Rightarrow> py_error + unit" where
  "error_parts [] = Inr ()"
| "error_parts (e # es) =
     bind_err (unwrap e ''errorId'' (JList [JStr ''?''])) (\<lambda>i.
     bind_err (unwrap e ''message'' (JList [JStr []])) (\<lambda>m. error_parts es))"

definition ack_failure :: "json \<Rightarrow> py_error" where
  "ack_failure rt =
     (case bind_err (unwrap rt ''errorMessage'' (JList [JDict []])) (\<lambda>em.
           bind_err (py_get em ''error'' (JList [])) (\<lambda>errs.
           bind_err (py_iter errs) error_parts)) of
        Inl e \<Rightarrow> e
      | Inr u \<Rightarrow> RuntimeError)"

definition ebay_finding_call :: "(request \<Rightarrow> http_outcome) \<Rightarrow> request \<Rightarrow> py_error + json" where
  "ebay_finding_call nt req =
     (case nt req of
        ConnectionFailed \<Rightarrow> Inl RequestException
      | BadStatus \<Rightarrow> Inl HTTPError
      | NotJson \<Rightarrow> Inl ValueError
      | Body data \<Rightarrow>
          bind_err (unwrap data (req_operation req @ ''Response'') (JList [JDict []])) (\<lambda>rt.
          bind_err (unwrap rt ''ack'' (JList [JStr []])) (\<lambda>a.
          bind_err (py_lower (py_or a (JStr []))) (\<lambda>ack.
            if ack \<notin> {''success'', ''warning''} then Inl (ack_failure rt) else Inr rt))))"

definition active_request :: "string \<Rightarrow> string \<Rightarrow> int \<Rightarrow> string \<Rightarrow> request" where
  "active_request app_id keyword active_limit global_id =
     \<lparr>req_operation = ''findItemsByKeywords'', req_app_id = app_id,
      req_global_id = global_id, req_keywords = keyword,
      req_entries_per_page = active_limit, req_page_number = None,
      req_sort_order = ''BestMatch'', req_sold_items_only = False\<rparr>"

definition find_active ::
  "env \<Rightarrow> string \<Rightarrow> string \<Rightarrow> int \<Rightarrow> string \<Rightarrow> py_error + active_listing list" where
  "find_active env app_id keyword active_limit global_id =
     bind_err (ebay_finding_call (net env) (active_request app_id keyword active_limit global_id))
       (parse_active_items (str_float env))"

section \<open>The pagination fetcher\<close>

definition sold_request :: "string \<Rightarrow> string \<Rightarrow> string \<Rightarrow> int \<Rightarrow> int option \<Rightarrow> request" where
  "sold_request app_id keyword global_id entries page =
     \<lparr>req_operation = ''findCompletedItems'', req_app_id = app_id,
      req_global_id = global_id, req_keywords = keyword,
      req_entries_per_page = entries, req_page_number = page,
      req_sort_order = ''EndTimeSoonest'', req_sold_items_only = True\<rparr>"

text \<open>Line 188: the page count a response reports, \<^verbatim>\<open>"1"\<close> when it reports none.\<close>

definition total_pages :: "(string \<Rightarrow> int option) \<Rightarrow> json \<Rightarrow> py_error + int" where
  "total_pages si rt =
     bind_err (unwrap rt ''paginationOutput'' (JList [JDict []])) (\<lambda>po.
     bind_err (unwrap po ''totalPages'' (JList [JStr ''1''])) (py_int si))"

text \<open>
  The \<^verbatim>\<open>while\<close> loop of \<^verbatim>\<open>find_sold_totals\<close>. Nothing bounds its turns (a server
  may report one more page each time and send no item), so the model counts them down
  from \<open>fuel\<close>, and \<open>None\<close> stands for a loop that has not ended. The first component of
  the result is the list of the requests sent so far, oldest first. The pause between
  two pages has no effect on the result.
\<close>

fun sold_loop ::
  "nat \<Rightarrow> env \<Rightarrow> string \<Rightarrow> string \<Rightarrow> int \<Rightarrow> string \<Rightarrow> int \<Rightarrow> json \<Rightarrow> real list \<Rightarrow> request list
     \<Rightarrow> request list \<times> (py_error + real list) option" where
  "sold_loop 0 env app_id keyword sold_limit global_id page rt totals sent = (sent, None)"
| "sold_loop (Suc fuel) env app_id keyword sold_limit global_id page rt totals sent =
     (if \<not> int (length totals) < sold_limit
      then (sent, Some (Inr (py_slice_to totals sold_limit)))
      else
        case total_pages (str_int env) rt of
          Inl e \<Rightarrow> (sent, Some (Inl e))
        | Inr tp \<Rightarrow>
            if page + 1 > tp then (sent, Some (Inr (py_slice_to totals sold_limit)))
            else
              (let req = sold_request app_id keyword global_id 100 (Some (page + 1))
               in case ebay_finding_call (net env) req of
                    Inl e \<Rightarrow> (sent @ [req], Some (Inl e))
                  | Inr rt' \<Rightarrow>
                      (case parse_sold_totals (str_float env) rt' of
                         Inl e \<Rightarrow> (sent @ [req], Some (Inl e))
                       | Inr ts \<Rightarrow>
                           sold_loop fuel env app_id keyword sold_limit global_id (page + 1) rt'
                             (totals @ ts) (sent @ [req]))))"

definition find_sold_totals ::
  "nat \<Rightarrow> env \<Rightarrow> string \<Rightarrow> string \<Rightarrow> int \<Rightarrow> string
     \<Rightarrow> request list \<times> (py_error + real list) option" where
  "find_sold_totals fuel env app_id keyword sold_limit global_id =
     (let req = sold_request app_id keyword global_id (min sold_limit 100) None
      in case ebay_finding_call (net env) req of
           Inl e \<Rightarrow> ([req], Some (Inl e))
         | Inr rt \<Rightarrow>
             (case parse_sold_totals (str_float env) rt of
                Inl e \<Rightarrow> ([req], Some (Inl e))
              | Inr totals \<Rightarrow>
                  sold_loop fuel env app_id keyword sold_limit global_id 1 rt totals [req]))"

text \<open>The sold totals one request brings: the call, then the parser.\<close>

definition page_totals :: "env \<Rightarrow> request \<Rightarrow> py_error + real list" where
  "page_totals env req =
     bind_err (ebay_finding_call (net env) req) (parse_sold_totals (str_float env))"

section \<open>The pipeline driver\<close>

text \<open>The command-line arguments the loop of \<^verbatim>\<open>main\<close> reads.\<close>

record args =
  arg_app_id :: string
  arg_active_limit :: int
  arg_sold_limit :: int
  arg_global_id :: string
  arg_ebay_fee_rate :: real
  arg_payment_fee_rate :: real
  arg_payment_fixed_fee :: real
  arg_shipping_out :: real

text \<open>A line printed on the error stream, with the keyword it names.\<close>

datatype log_line = HttpErrorLine string | ErrorLine string

text \<open>Lines 299 to 310: the rows of one keyword, appended to the rows so far.\<close>

fun rows_for ::
  "args \<Rightarrow> string \<Rightarrow> active_listing list \<Rightarrow> real list \<Rightarrow> opportunity_row list
     \<Rightarrow> py_error + opportunity_row list" where
  "rows_for a kw [] sold_totals rows = Inr rows"
| "rows_for a kw (act # acts) sold_totals rows =
     (case compute_row kw act sold_totals (arg_ebay_fee_rate a) (arg_payment_fee_rate a)
             (arg_payment_fixed_fee a) (arg_shipping_out a) of
        Inl e \<Rightarrow> Inl e
      | Inr None \<Rightarrow> rows_for a kw acts sold_totals rows
      | Inr (Some row) \<Rightarrow> rows_for a kw acts sold_totals (rows @ [row]))"

text \<open>Lines 290 and 291, the body of the \<^verbatim>\<open>try\<close>.\<close>

definition fetch_keyword ::
  "nat \<Rightarrow> env \<Rightarrow> args \<Rightarrow> string \<Rightarrow> (py_error + active_listing list \<times> real list) option" where
  "fetch_keyword fuel env a kw =
     (case find_active env (arg_app_id a) kw (arg_active_limit a) (arg_global_id a) of
        Inl e \<Rightarrow> Some (Inl e)
      | Inr active_items \<Rightarrow>
          (case snd (find_sold_totals fuel env (arg_app_id a) kw (arg_sold_limit a)
                       (arg_global_id a)) of
             None \<Rightarrow> None
           | Some (Inl e) \<Rightarrow> Some (Inl e)
           | Some (Inr sold_totals) \<Rightarrow> Some (Inr (active_items, sold_totals))))"

text \<open>The two \<^verbatim>\<open>except\<close> clauses: the first catches \<^verbatim>\<open>requests.HTTPError\<close> only.\<close>

definition report_line :: "py_error \<Rightarrow> string \<Rightarrow> log_line" where
  "report_line e kw = (if e = HTTPError then HttpErrorLine kw else ErrorLine kw)"

text \<open>
  Lines 288 to 310: the loop over the keywords. The state is the list \<^verbatim>\<open>rows\<close> and
  the lines printed on the error stream. An exception outside the \<^verbatim>\<open>try\<close> ends the
  run (\<open>Inl\<close>).
\<close>

fun main_loop ::
  "nat \<Rightarrow> env \<Rightarrow> args \<Rightarrow> string list \<Rightarrow> opportunity_row list \<times> log_line list
     \<Rightarrow> (py_error + opportunity_row list \<times> log_line list) option" where
  "main_loop fuel env a [] st = Some (Inr st)"
| "main_loop fuel env a (kw # kws) st =
     (case fetch_keyword fuel env a kw of
        None \<Rightarrow> None
      | Some (Inl e) \<Rightarrow> main_loop fuel env a kws (fst st, snd st @ [report_line e kw])
      | Some (Inr fetched) \<Rightarrow>
          (case rows_for a kw (fst fetched) (snd fetched) (fst st) of
             Inl e \<Rightarrow> Some (Inl e)
           | Inr rows \<Rightarrow> main_loop fuel env a kws (rows, snd st)))"

text \<open>The rows a run ends with, whatever it printed.\<close>

definition final_rows ::
  "(py_error + opportunity_row list \<times> log_line list) option
     \<Rightarrow> (py_error + opportunity_row list) option" where
  "final_rows r = map_option (map_sum id fst) r"

section \<open>The parser's contract in the words of the specification\<close>

text \<open>
  The first element of the list under key \<open>k\<close> of an object, when the key is there and
  holds a non-empty list.
\<close>

fun field0 :: "json \<Rightarrow> string \<Rightarrow> json option" where
  "field0 (JDict kvs) k =
     (case map_of kvs k of
        None \<Rightarrow> None
      | Some v \<Rightarrow> (case v of JList (x # xs) \<Rightarrow> Some x | _ \<Rightarrow> None))"
| "field0 JNull k = None"
| "field0 (JBool b) k = None"
| "field0 (JNum x) k = None"
| "field0 (JStr s) k = None"
| "field0 (JList vs) k = None"

text \<open>The number under \<^verbatim>\<open>__value__\<close> of an object, when there is one.\<close>

fun numeric_value :: "(string \<Rightarrow> real option) \<Rightarrow> json \<Rightarrow> real option" where
  "numeric_value sf (JDict kvs) =
     (case map_of kvs ''__value__'' of
        None \<Rightarrow> None
      | Some v \<Rightarrow> (case py_float sf v of Inl e \<Rightarrow> None | Inr x \<Rightarrow> Some x))"
| "numeric_value sf JNull = None"
| "numeric_value sf (JBool b) = None"
| "numeric_value sf (JNum x) = None"
| "numeric_value sf (JStr s) = None"
| "numeric_value sf (JList vs) = None"

text \<open>
  The price of a record: the numeric value of \<^verbatim>\<open>sellingStatus[0].currentPrice[0]\<close>;
  \<open>None\<close> when the field is missing or not numeric. Its shipping cost likewise, from
  \<^verbatim>\<open>shippingInfo[0].shippingServiceCost[0]\<close>.
\<close>

definition item_price :: "(string \<Rightarrow> real option) \<Rightarrow> json \<Rightarrow> real option" where
  "item_price sf it =
     (case field0 it ''sellingStatus'' of
        None \<Rightarrow> None
      | Some selling \<Rightarrow>
          (case field0 selling ''currentPrice'' of
             None \<Rightarrow> None
           | Some price_obj \<Rightarrow> numeric_value sf price_obj))"

definition item_shipping :: "(string \<Rightarrow> real option) \<Rightarrow> json \<Rightarrow> real option" where
  "item_shipping sf it =
     (case field0 it ''shippingInfo'' of
        None \<Rightarrow> None
      | Some ship_info \<Rightarrow>
          (case field0 ship_info ''shippingServiceCost'' of
             None \<Rightarrow> None
           | Some cost \<Rightarrow> numeric_value sf cost))"

definition item_text :: "json \<Rightarrow> string \<Rightarrow> string" where
  "item_text it k = (case field0 it k of Some (JStr s) \<Rightarrow> strip s | _ \<Rightarrow> [])"

text \<open>
  The listing the specification asks for: none for a record without a numeric price,
  otherwise the record's texts, its price, and its shipping cost or zero.
\<close>

definition spec_listing :: "(string \<Rightarrow> real option) \<Rightarrow> json \<Rightarrow> active_listing option" where
  "spec_listing sf it =
     (case item_price sf it of
        None \<Rightarrow> None
      | Some price \<Rightarrow>
          (let shipping = (case item_shipping sf it of None \<Rightarrow> 0 | Some s \<Rightarrow> s)
           in Some
             \<lparr>active_title = item_text it ''title'',
              active_item_id = item_text it ''itemId'',
              active_url = item_text it ''viewItemURL'',
              active_price_gbp = price,
              active_shipping_gbp = shipping,
              active_buy_price_gbp = price + shipping\<rparr>))"

text \<open>
  The convention of the API on wrappers: a field that is present holds a non-empty list.
  For a wrapper of an object the first element is an object; for a text the first
  element is a string or a false value.
\<close>

fun wraps_object :: "json \<Rightarrow> string \<Rightarrow> bool" where
  "wraps_object (JDict kvs) k =
     (case map_of kvs k of
        None \<Rightarrow> True
      | Some v \<Rightarrow> (case v of JList (JDict d # xs) \<Rightarrow> True | _ \<Rightarrow> False))"
| "wraps_object JNull k = False"
| "wraps_object (JBool b) k = False"
| "wraps_object (JNum x) k = False"
| "wraps_object (JStr s) k = False"
| "wraps_object (JList vs) k = False"

fun wraps_text :: "json \<Rightarrow> string \<Rightarrow> bool" where
  "wraps_text (JDict kvs) k =
     (case map_of kvs k of
        None \<Rightarrow> True
      | Some v \<Rightarrow>
          (case v of
             JList (JStr s # xs) \<Rightarrow> True
           | JList (x # xs) \<Rightarrow> \<not> py_truthy x
           | _ \<Rightarrow> False))"
| "wraps_text JNull k = False"
| "wraps_text (JBool b) k = False"
| "wraps_text (JNum x) k = False"
| "wraps_text (JStr s) k = False"
| "wraps_text (JList vs) k = False"

definition item_conventional :: "json \<Rightarrow> bool" where
  "item_conventional it \<longleftrightarrow>
     wraps_text it ''title'' \<and> wraps_text it ''itemId'' \<and> wraps_text it ''viewItemURL'' \<and>
     wraps_object it ''sellingStatus'' \<and>
     (case field0 it ''sellingStatus'' of
        None \<Rightarrow> True
      | Some selling \<Rightarrow> wraps_object selling ''currentPrice'') \<and>
     wraps_object it ''shippingInfo''"

text \<open>The records of a response, and the convention on the response as a whole.\<close>

definition items_of :: "json \<Rightarrow> json list" where
  "items_of rt =
     (case field0 rt ''searchResult'' of
        Some (JDict kvs) \<Rightarrow> (case map_of kvs ''item'' of Some (JList its) \<Rightarrow> its | _ \<Rightarrow> [])
      | _ \<Rightarrow> [])"

definition response_conventional :: "json \<Rightarrow> bool" where
  "response_conventional rt \<longleftrightarrow>
     wraps_object rt ''searchResult'' \<and>
     (case field0 rt ''searchResult'' of
        Some (JDict kvs) \<Rightarrow>
          (case map_of kvs ''item'' of
             None \<Rightarrow> True
           | Some v \<Rightarrow> (case v of JList its \<Rightarrow> list_all item_conventional its | _ \<Rightarrow> False))
      | _ \<Rightarrow> True)"

section \<open>Properties of the estimator\<close>

subsection \<open>Median and rounding\<close>

lemma median_eq:
  "xs \<noteq> [] \<Longrightarrow>
     median xs = Inr (if length xs mod 2 = 1 then sort xs ! (length xs div 2)
                      else (sort xs ! (length xs div 2 - 1) + sort xs ! (length xs div 2)) / 2)"
proof -
  assume "xs \<noteq> []"
  then have "length (sort xs) \<noteq> 0" by simp
  then show ?thesis
    unfolding median_def Let_def by (simp del: length_0_conv)
qed

lemma median_nonempty:
  "xs \<noteq> [] \<Longrightarrow> \<exists>m. median xs = Inr m"
  using median_eq by blast

lemma round_half_even_close: "\<bar>of_int (round_half_even y) - y\<bar> \<le> 1 / 2"
proof -
  have "of_int \<lfloor>y\<rfloor> \<le> y" "y < of_int \<lfloor>y\<rfloor> + 1" by linarith+
  then show ?thesis
    by (auto simp add: round_half_even_def Let_def)
qed

lemma py_round_scaled: "py_round x n * 10 ^ n = of_int (round_half_even (x * 10 ^ n))"
  by (simp add: py_round_def)

lemma py_round_close: "\<bar>py_round x n - x\<bar> \<le> 1 / (2 * 10 ^ n)"
proof -
  have "\<bar>py_round x n - x\<bar> * 10 ^ n = \<bar>py_round x n * 10 ^ n - x * 10 ^ n\<bar>"
  proof -
    have "\<bar>py_round x n - x\<bar> * 10 ^ n = \<bar>(py_round x n - x) * 10 ^ n\<bar>"
      by (simp add: abs_mult)
    then show ?thesis by (simp only: left_diff_distrib)
  qed
  also have "\<dots> \<le> 1 / 2"
    unfolding py_round_scaled by (rule round_half_even_close)
  finally have "\<bar>py_round x n - x\<bar> * 10 ^ n \<le> 1 / 2" .
  then show ?thesis
    by (simp add: field_simps)
qed

lemma py_round_has_decimals: "has_decimals n (py_round x n)"
  unfolding has_decimals_def py_round_scaled by simp




subsection \<open>The estimate in closed form\<close>

lemma compute_estimate_nonempty:
  assumes "sold_totals \<noteq> []"
  shows "\<exists>m. median sold_totals = Inr m \<and>
     compute_estimate active sold_totals efr pfr pff so =
       Inr \<lparr>median_sold = m, ebay_fee = m * efr, payment_fee = m * pfr + pff,
            active_buy = active_buy_price_gbp active,
            expected_profit = m - m * efr - (m * pfr + pff) - so - active_buy_price_gbp active,
            margin = (if active_buy_price_gbp active > 0
                      then (m - m * efr - (m * pfr + pff) - so - active_buy_price_gbp active)
                             / active_buy_price_gbp active
                      else - 1)\<rparr>"
proof -
  from assms obtain m where m: "median sold_totals = Inr m"
    using median_nonempty by blast
  show ?thesis
    by (simp add: m compute_estimate_def Let_def py_truediv_def)
qed

subsection \<open>An empty sample\<close>

text \<open>
  C2. With an empty sold sample \<^verbatim>\<open>compute_row\<close> returns no row, for every keyword,
  active listing and fee model.
\<close>

theorem compute_row_empty_sample:
  "compute_row kw active [] efr pfr pff so = Inr None"
  by (simp add: compute_row_def)

subsection \<open>The median of the sold sample\<close>




subsection \<open>Two runs of the estimator\<close>

text \<open>
  C5. A listing bought at 45.00 (40.00 plus 5.00 shipping), the sold sample 80, 85, 90
  and the default fee model (0.128, 0.029, 0.30, 4.50) give the median 85, the
  marketplace fee 10.88, the payment fee 2.765 and the expected profit 21.855, and no
  row. The same with a buy price of 20.00 gives the expected profit 46.855 and the
  margin 2.34275, and a row.
\<close>

theorem end_to_end_scenarios:
  "compute_estimate
     \<lparr>active_title = ''console'', active_item_id = ''1'', active_url = ''u'',
      active_price_gbp = 40.00, active_shipping_gbp = 5.00, active_buy_price_gbp = 45.00\<rparr>
     [80, 85, 90] 0.128 0.029 0.30 4.50
     = Inr \<lparr>median_sold = 85, ebay_fee = 10.88, payment_fee = 2.765, active_buy = 45.00,
            expected_profit = 21.855, margin = 21.855 / 45.00\<rparr>
   \<and> compute_row ''game boy''
     \<lparr>active_title = ''console'', active_item_id = ''1'', active_url = ''u'',
      active_price_gbp = 40.00, active_shipping_gbp = 5.00, active_buy_price_gbp = 45.00\<rparr>
     [80, 85, 90] 0.128 0.029 0.30 4.50 = Inr None
   \<and> compute_estimate
     \<lparr>active_title = ''console'', active_item_id = ''1'', active_url = ''u'',
      active_price_gbp = 40.00, active_shipping_gbp = 5.00, active_buy_price_gbp = 20.00\<rparr>
     [80, 85, 90] 0.128 0.029 0.30 4.50
     = Inr \<lparr>median_sold = 85, ebay_fee = 10.88, payment_fee = 2.765, active_buy = 20.00,
            expected_profit = 46.855, margin = 2.34275\<rparr>
   \<and> (\<exists>row. compute_row ''game boy''
     \<lparr>active_title = ''console'', active_item_id = ''1'', active_url = ''u'',
      active_price_gbp = 40.00, active_shipping_gbp = 5.00, active_buy_price_gbp = 20.00\<rparr>
     [80, 85, 90] 0.128 0.029 0.30 4.50 = Inr (Some row)
       \<and> row_sold_sample_size row = 3 \<and> row_median_sold_price_gbp row = 85
       \<and> row_active_buy_price_gbp row = 20)"
proof -
  have m: "median [80, 85, 90] = Inr 85" by (simp add: median_def)
  have r1: "py_round 20 2 = 20" "py_round 85 2 = 85"
    by (simp_all add: py_round_def round_half_even_def)
  show ?thesis
    by (simp add: compute_row_def compute_estimate_def m py_truediv_def
        MIN_PROFIT_GBP_def MIN_MARGIN_def r1)
qed


subsection \<open>A buy price that is not positive\<close>

text \<open>
  C6. For a listing whose buy price is zero or negative \<^verbatim>\<open>compute_row\<close> returns no
  row; with a non-empty sample the margin of the estimate is the sentinel \<open>-1\<close>, which is
  below the margin threshold, and the quotient is not taken. Hence every row comes from
  a listing with a positive buy price, and \<^verbatim>\<open>compute_row\<close> raises no exception: the
  division by zero cannot happen.
\<close>

theorem nonpositive_buy_price_rejected:
  "(active_buy_price_gbp active \<le> 0 \<longrightarrow>
      compute_row kw active sold_totals efr pfr pff so = Inr None \<and>
      (sold_totals \<noteq> [] \<longrightarrow>
         (\<exists>est. compute_estimate active sold_totals efr pfr pff so = Inr est \<and>
            margin est = - 1 \<and> margin est < MIN_MARGIN)))
   \<and> (\<forall>row. compute_row kw active sold_totals efr pfr pff so = Inr (Some row)
          \<longrightarrow> 0 < active_buy_price_gbp active)
   \<and> (\<forall>e. compute_row kw active sold_totals efr pfr pff so \<noteq> Inl e)"
proof (cases "sold_totals = []")
  case True
  then show ?thesis by (simp add: compute_row_def)
next
  case False
  from compute_estimate_nonempty [OF False, of active efr pfr pff so]
  obtain est where est: "compute_estimate active sold_totals efr pfr pff so = Inr est"
    and g: "margin est = (if active_buy_price_gbp active > 0
                    then expected_profit est / active_buy_price_gbp active else - 1)"
    by force
  show ?thesis
    using False g by (auto simp add: compute_row_def est MIN_MARGIN_def)
qed


theorem nonpositive_buy_price_rejected_witness:
  "active_buy_price_gbp
     \<lparr>active_title = ''console'', active_item_id = ''1'', active_url = ''u'',
      active_price_gbp = 0, active_shipping_gbp = 0, active_buy_price_gbp = 0\<rparr> \<le> 0 \<and>
   compute_row ''game boy''
     \<lparr>active_title = ''console'', active_item_id = ''1'', active_url = ''u'',
      active_price_gbp = 0, active_shipping_gbp = 0, active_buy_price_gbp = 0\<rparr>
     [80, 85, 90] 0.128 0.029 0.30 4.50 = Inr None \<and>
   (\<exists>est. compute_estimate
     \<lparr>active_title = ''console'', active_item_id = ''1'', active_url = ''u'',
      active_price_gbp = 0, active_shipping_gbp = 0, active_buy_price_gbp = 0\<rparr>
     [80, 85, 90] 0.128 0.029 0.30 4.50 = Inr est \<and> margin est = - 1 \<and> expected_profit est = 66.855)"
  using nonpositive_buy_price_rejected [of
     "\<lparr>active_title = ''console'', active_item_id = ''1'', active_url = ''u'',
      active_price_gbp = 0, active_shipping_gbp = 0, active_buy_price_gbp = 0\<rparr>"
     "''game boy''" "[80, 85, 90]" "0.128" "0.029" "0.30" "4.50"]
  by (simp add: compute_estimate_def median_def py_truediv_def)

subsection \<open>Monotonicity in the buy price\<close>

text \<open>
  C10. If \<^verbatim>\<open>compute_row\<close> returns a row for a listing with buy price \<open>b > 0\<close>, it
  returns a row for the same listing, sample and fee model with any buy price \<open>b'\<close>
  such that \<open>0 < b' \<le> b\<close>.
\<close>

theorem compute_row_monotone_in_buy_price:
  assumes acc: "compute_row kw active sold_totals efr pfr pff so = Inr (Some row)"
    and b: "0 < active_buy_price_gbp active"
    and b': "0 < b'" "b' \<le> active_buy_price_gbp active"
  shows "\<exists>row'. compute_row kw (active\<lparr>active_buy_price_gbp := b'\<rparr>) sold_totals efr pfr pff so
            = Inr (Some row')"
proof -
  have ne: "sold_totals \<noteq> []"
    using acc by (auto simp add: compute_row_def)
  from median_nonempty [OF ne] obtain m where m: "median sold_totals = Inr m" by blast
  define c where "c = m - m * efr - (m * pfr + pff) - so"
  define b0 where "b0 = active_buy_price_gbp active"
  have p: "25 \<le> c - b0" and g: "1 / 4 \<le> (c - b0) / b0"
    using acc ne b
    by (auto simp add: compute_row_def compute_estimate_def m Let_def py_truediv_def
        MIN_PROFIT_GBP_def MIN_MARGIN_def c_def b0_def split: if_splits)
  have p': "25 \<le> c - b'" using p b' by (simp add: b0_def)
  have "(c - b0) / b0 \<le> (c - b') / b'"
    by (rule frac_le) (use p b b' in \<open>simp_all add: b0_def\<close>)
  with g have g': "1 / 4 \<le> (c - b') / b'" by (rule order_trans)
  show ?thesis
    using ne b' p' g'
    by (simp add: compute_row_def compute_estimate_def m Let_def py_truediv_def
        MIN_PROFIT_GBP_def MIN_MARGIN_def c_def)
qed


theorem compute_row_monotone_in_buy_price_witness:
  "(\<exists>row. compute_row ''game boy''
     \<lparr>active_title = ''console'', active_item_id = ''1'', active_url = ''u'',
      active_price_gbp = 15, active_shipping_gbp = 5, active_buy_price_gbp = 20\<rparr>
     [80, 85, 90] 0.128 0.029 0.30 4.50 = Inr (Some row)) \<and>
   (0 :: real) < 20 \<and> (0 :: real) < 10 \<and> (10 :: real) \<le> 20 \<and>
   (\<exists>row'. compute_row ''game boy''
     \<lparr>active_title = ''console'', active_item_id = ''1'', active_url = ''u'',
      active_price_gbp = 15, active_shipping_gbp = 5, active_buy_price_gbp = 10\<rparr>
     [80, 85, 90] 0.128 0.029 0.30 4.50 = Inr (Some row'))"
proof -
  have m: "median [80, 85, 90] = Inr 85" by (simp add: median_def)
  obtain row where row: "compute_row ''game boy''
     \<lparr>active_title = ''console'', active_item_id = ''1'', active_url = ''u'',
      active_price_gbp = 15, active_shipping_gbp = 5, active_buy_price_gbp = 20\<rparr>
     [80, 85, 90] 0.128 0.029 0.30 4.50 = Inr (Some row)"
    by (simp add: compute_row_def compute_estimate_def m py_truediv_def
        MIN_PROFIT_GBP_def MIN_MARGIN_def)
  from compute_row_monotone_in_buy_price [OF row, of 10] row show ?thesis
    by simp
qed

section \<open>Properties of the response parser\<close>

lemma get_price_numeric_value: "get_price sf obj = numeric_value sf obj"
  by (cases obj) (auto simp add: get_price_def bind_err_def split: option.splits sum.splits)

lemma unwrap_absent:
  "map_of kvs k = None \<Longrightarrow> unwrap (JDict kvs) k (JList [d]) = Inr d"
  by (simp add: unwrap_def bind_err_def)

lemma unwrap_present:
  "map_of kvs k = Some (JList (x # xs)) \<Longrightarrow> unwrap (JDict kvs) k dflt = Inr x"
  by (simp add: unwrap_def bind_err_def)

lemma wraps_object_unwrap:
  assumes "wraps_object d k"
  shows "\<exists>kv. unwrap d k (JList [JDict []]) = Inr (JDict kv) \<and>
     (case field0 d k of None \<Rightarrow> kv = [] | Some x \<Rightarrow> x = JDict kv)"
proof (cases d)
  case (JDict kvs)
  show ?thesis
  proof (cases "map_of kvs k")
    case None
    then show ?thesis by (simp add: JDict unwrap_absent)
  next
    case (Some v)
    with assms JDict obtain kv xs where v: "v = JList (JDict kv # xs)"
      by (auto split: json.splits list.splits)
    show ?thesis
      using Some v by (simp add: JDict unwrap_present)
  qed
qed (use assms in simp_all)

lemma text_field_conventional:
  assumes "wraps_text it k"
  shows "text_field it k = Inr (item_text it k)"
proof (cases it)
  case (JDict kvs)
  show ?thesis
  proof (cases "map_of kvs k")
    case None
    then show ?thesis
      by (simp add: JDict text_field_def unwrap_absent bind_err_def py_or_def item_text_def strip_def)
  next
    case (Some v)
    with assms JDict obtain x xs where v: "v = JList (x # xs)"
      and x: "(\<exists>s. x = JStr s) \<or> \<not> py_truthy x"
      by (auto split: json.splits list.splits)
    have u: "unwrap (JDict kvs) k (JList [JStr []]) = Inr x"
      using Some v by (simp add: unwrap_present)
    have f: "item_text (JDict kvs) k = (case x of JStr s \<Rightarrow> strip s | _ \<Rightarrow> [])"
      using Some v by (simp add: item_text_def)
    have "py_strip (py_or x (JStr [])) = Inr (case x of JStr s \<Rightarrow> strip s | _ \<Rightarrow> [])"
      using x by (cases x) (auto simp add: py_or_def strip_def)
    then show ?thesis
      unfolding JDict f text_field_def u by (simp add: bind_err_def)
  qed
qed (use assms in simp_all)

lemma shipping_of_cost:
  "shipping_of sf (case map_of kvs k of None \<Rightarrow> JList [JDict []] | Some v \<Rightarrow> v) =
     (case (case field0 (JDict kvs) k of None \<Rightarrow> None | Some c \<Rightarrow> numeric_value sf c) of
        None \<Rightarrow> 0 | Some s \<Rightarrow> s)"
proof (cases "map_of kvs k")
  case None
  then show ?thesis by (simp add: get_price_numeric_value)
next
  case (Some v)
  show ?thesis
  proof (cases v)
    case (JList xs)
    then show ?thesis
      using Some by (cases xs) (simp_all add: get_price_numeric_value)
  qed (use Some in simp_all)
qed

lemma price_and_shipping_conventional:
  assumes s: "wraps_object it ''sellingStatus''"
    and c: "case field0 it ''sellingStatus'' of None \<Rightarrow> True
         | Some selling \<Rightarrow> wraps_object selling ''currentPrice''"
    and h: "wraps_object it ''shippingInfo''"
  shows "price_and_shipping sf it =
     Inr (item_price sf it, case item_shipping sf it of None \<Rightarrow> 0 | Some s \<Rightarrow> s)"
proof -
  from wraps_object_unwrap [OF s] obtain sel
    where sel: "unwrap it ''sellingStatus'' (JList [JDict []]) = Inr (JDict sel)"
      and sel': "case field0 it ''sellingStatus'' of None \<Rightarrow> sel = [] | Some x \<Rightarrow> x = JDict sel"
    by blast
  have "wraps_object (JDict sel) ''currentPrice''"
    using c sel' by (cases "field0 it ''sellingStatus''") simp_all
  from wraps_object_unwrap [OF this] obtain po
    where po: "unwrap (JDict sel) ''currentPrice'' (JList [JDict []]) = Inr (JDict po)"
      and po': "case field0 (JDict sel) ''currentPrice'' of None \<Rightarrow> po = [] | Some x \<Rightarrow> x = JDict po"
    by blast
  have price: "item_price sf it = numeric_value sf (JDict po)"
  proof (cases "field0 it ''sellingStatus''")
    case None
    with sel' have "sel = []" by simp
    with po' have "po = []" by simp
    with None show ?thesis by (simp add: item_price_def)
  next
    case (Some x)
    with sel' have x: "x = JDict sel" by simp
    show ?thesis
      using po' by (cases "field0 (JDict sel) ''currentPrice''")
        (simp_all add: item_price_def Some x del: field0.simps)
  qed
  from wraps_object_unwrap [OF h] obtain inf
    where inf: "unwrap it ''shippingInfo'' (JList [JDict []]) = Inr (JDict inf)"
      and inf': "case field0 it ''shippingInfo'' of None \<Rightarrow> inf = [] | Some x \<Rightarrow> x = JDict inf"
    by blast
  have ship: "shipping_of sf
       (case map_of inf ''shippingServiceCost'' of None \<Rightarrow> JList [JDict []] | Some v \<Rightarrow> v)
     = (case item_shipping sf it of None \<Rightarrow> 0 | Some s \<Rightarrow> s)"
  proof (cases "field0 it ''shippingInfo''")
    case None
    with inf' have "inf = []" by simp
    with None show ?thesis by (simp add: item_shipping_def get_price_numeric_value)
  next
    case (Some x)
    with inf' have x: "x = JDict inf" by simp
    show ?thesis
      unfolding shipping_of_cost by (simp add: item_shipping_def Some x del: field0.simps)
  qed
  show ?thesis
    unfolding price_and_shipping_def sel
    by (simp add: bind_err_def po inf ship price get_price_numeric_value del: numeric_value.simps)
qed

lemma parse_active_item_conventional:
  assumes "item_conventional it"
  shows "parse_active_item sf it = Inr (spec_listing sf it)"
proof -
  have t: "text_field it ''title'' = Inr (item_text it ''title'')"
    "text_field it ''itemId'' = Inr (item_text it ''itemId'')"
    "text_field it ''viewItemURL'' = Inr (item_text it ''viewItemURL'')"
    using assms by (simp_all add: item_conventional_def text_field_conventional)
  have p: "price_and_shipping sf it =
     Inr (item_price sf it, case item_shipping sf it of None \<Rightarrow> 0 | Some s \<Rightarrow> s)"
    using assms by (intro price_and_shipping_conventional) (simp_all add: item_conventional_def)
  show ?thesis
    unfolding parse_active_item_def t p
    by (simp add: bind_err_def spec_listing_def Let_def split: option.splits)
qed

lemma parse_active_loop_conventional:
  assumes "list_all item_conventional its"
  shows "parse_active_loop sf its out = Inr (out @ List.map_filter (spec_listing sf) its)"
  using assms
proof (induction its arbitrary: out)
  case Nil
  then show ?case by (simp add: List.map_filter_simps)
next
  case (Cons it its)
  then have it: "parse_active_item sf it = Inr (spec_listing sf it)"
    and rest: "list_all item_conventional its"
    by (simp_all add: parse_active_item_conventional)
  show ?case
    by (cases "spec_listing sf it") (simp_all add: it Cons.IH [OF rest] List.map_filter_simps)
qed

text \<open>
  C8, as the code has it. For every response that follows the convention on wrappers
  (\<^verbatim>\<open>searchResult\<close>, \<^verbatim>\<open>sellingStatus\<close>, \<^verbatim>\<open>currentPrice\<close> and \<^verbatim>\<open>shippingInfo\<close>, where
  present, hold a non-empty list that starts with an object; \<^verbatim>\<open>item\<close>, where present,
  holds a list; the three texts, where present, hold a non-empty list that starts with a
  string or a false value), the parser raises nothing and returns, in order, the
  listing of each record that has a numeric price: a record whose price is missing or
  not numeric gives no element, and a record with a price whose shipping cost is
  missing or malformed (whatever \<^verbatim>\<open>shippingServiceCost\<close> holds) gets the shipping
  cost zero.
\<close>

theorem parse_active_items_conventional:
  assumes "response_conventional rt"
  shows "parse_active_items sf rt = Inr (List.map_filter (spec_listing sf) (items_of rt))
    \<and> (\<forall>it. item_conventional it \<longrightarrow>
          parse_active_item sf it = Inr (spec_listing sf it) \<and>
          (item_price sf it = None \<longrightarrow> spec_listing sf it = None) \<and>
          (\<forall>p. item_price sf it = Some p \<longrightarrow> item_shipping sf it = None \<longrightarrow>
             (\<exists>a. spec_listing sf it = Some a \<and> active_price_gbp a = p \<and>
                  active_shipping_gbp a = 0 \<and> active_buy_price_gbp a = p)))"
proof -
  have w: "wraps_object rt ''searchResult''"
    using assms by (simp add: response_conventional_def)
  from wraps_object_unwrap [OF w] obtain sr
    where sr: "unwrap rt ''searchResult'' (JList [JDict []]) = Inr (JDict sr)"
      and sr': "case field0 rt ''searchResult'' of None \<Rightarrow> sr = [] | Some x \<Rightarrow> x = JDict sr"
    by blast
  have list: "parse_active_items sf rt = Inr (List.map_filter (spec_listing sf) (items_of rt))"
  proof (cases "field0 rt ''searchResult''")
    case None
    with sr' have "sr = []" by simp
    then show ?thesis
      unfolding parse_active_items_def sr
      by (simp add: bind_err_def items_of_def None List.map_filter_simps)
  next
    case (Some x)
    with sr' have x: "x = JDict sr" by simp
    show ?thesis
    proof (cases "map_of sr ''item''")
      case None
      then show ?thesis
        unfolding parse_active_items_def sr
        by (simp add: bind_err_def items_of_def Some x List.map_filter_simps)
    next
      case item: (Some v)
      with assms Some x obtain its where v: "v = JList its"
        and its: "list_all item_conventional its"
        by (auto simp add: response_conventional_def split: json.splits)
      show ?thesis
        unfolding parse_active_items_def sr
        by (simp add: bind_err_def items_of_def Some x item v
            parse_active_loop_conventional [OF its])
    qed
  qed
  show ?thesis
    using list
    by (auto simp add: parse_active_item_conventional spec_listing_def Let_def)
qed

text \<open>
  C8 as stated fails: the claim is for every response, and a record with a valid price
  whose \<^verbatim>\<open>shippingInfo\<close> holds an empty list makes the parser raise \<^verbatim>\<open>IndexError\<close>,
  since \<^verbatim>\<open>it.get("shippingInfo", [{}])[0]\<close> is not guarded.
\<close>

theorem parse_active_items_empty_shipping_wrapper:
  "parse_active_items (map_of [(''12.50'', 12.5)])
     (JDict [(''searchResult'', JList [JDict [(''item'', JList [
        JDict [(''sellingStatus'', JList [JDict [(''currentPrice'',
                  JList [JDict [(''__value__'', JStr ''12.50'')]])]]),
               (''shippingInfo'', JList [])]])]])])
   = Inl IndexError"
  by (simp add: parse_active_items_def parse_active_item_def price_and_shipping_def
      text_field_def unwrap_def bind_err_def py_or_def get_price_def strip_def)

theorem parse_active_items_conventional_witness:
  "response_conventional
     (JDict [(''searchResult'', JList [JDict [(''item'', JList [
        JDict [(''title'', JList [JStr '' Game Boy '']),
               (''itemId'', JList [JStr ''101'']),
               (''sellingStatus'', JList [JDict [(''currentPrice'',
                  JList [JDict [(''__value__'', JStr ''12.50'')]])]])],
        JDict [(''title'', JList [JStr ''No price'']),
               (''sellingStatus'', JList [JDict [(''currentPrice'',
                  JList [JDict [(''__value__'', JStr ''n/a'')]])]]),
               (''shippingInfo'', JList [JDict [(''shippingServiceCost'',
                  JList [JDict [(''__value__'', JStr ''3.00'')]])]])],
        JDict [(''itemId'', JList [JStr ''103'']),
               (''sellingStatus'', JList [JDict [(''currentPrice'',
                  JList [JDict [(''__value__'', JStr ''3.00'')]])]]),
               (''shippingInfo'', JList [JDict [(''shippingServiceCost'',
                  JStr ''free'')]])]])]])])
   \<and> parse_active_items (map_of [(''12.50'', 12.5), (''3.00'', 3)])
     (JDict [(''searchResult'', JList [JDict [(''item'', JList [
        JDict [(''title'', JList [JStr '' Game Boy '']),
               (''itemId'', JList [JStr ''101'']),
               (''sellingStatus'', JList [JDict [(''currentPrice'',
                  JList [JDict [(''__value__'', JStr ''12.50'')]])]])],
        JDict [(''title'', JList [JStr ''No price'']),
               (''sellingStatus'', JList [JDict [(''currentPrice'',
                  JList [JDict [(''__value__'', JStr ''n/a'')]])]]),
               (''shippingInfo'', JList [JDict [(''shippingServiceCost'',
                  JList [JDict [(''__value__'', JStr ''3.00'')]])]])],
        JDict [(''itemId'', JList [JStr ''103'']),
               (''sellingStatus'', JList [JDict [(''currentPrice'',
                  JList [JDict [(''__value__'', JStr ''3.00'')]])]]),
               (''shippingInfo'', JList [JDict [(''shippingServiceCost'',
                  JStr ''free'')]])]])]])])
   = Inr [\<lparr>active_title = ''Game Boy'', active_item_id = ''101'', active_url = [],
            active_price_gbp = 12.5, active_shipping_gbp = 0, active_buy_price_gbp = 12.5\<rparr>,
          \<lparr>active_title = [], active_item_id = ''103'', active_url = [],
            active_price_gbp = 3, active_shipping_gbp = 0, active_buy_price_gbp = 3\<rparr>]"
proof -
  have c: "response_conventional
     (JDict [(''searchResult'', JList [JDict [(''item'', JList [
        JDict [(''title'', JList [JStr '' Game Boy '']),
               (''itemId'', JList [JStr ''101'']),
               (''sellingStatus'', JList [JDict [(''currentPrice'',
                  JList [JDict [(''__value__'', JStr ''12.50'')]])]])],
        JDict [(''title'', JList [JStr ''No price'']),
               (''sellingStatus'', JList [JDict [(''currentPrice'',
                  JList [JDict [(''__value__'', JStr ''n/a'')]])]]),
               (''shippingInfo'', JList [JDict [(''shippingServiceCost'',
                  JList [JDict [(''__value__'', JStr ''3.00'')]])]])],
        JDict [(''itemId'', JList [JStr ''103'']),
               (''sellingStatus'', JList [JDict [(''currentPrice'',
                  JList [JDict [(''__value__'', JStr ''3.00'')]])]]),
               (''shippingInfo'', JList [JDict [(''shippingServiceCost'',
                  JStr ''free'')]])]])]])])"
    by (simp add: response_conventional_def item_conventional_def)
  have sp: "strip '' Game Boy '' = ''Game Boy''" "strip ''101'' = ''101''"
    "strip ''103'' = ''103''"
    by (simp_all add: strip_def is_space_def)
  from parse_active_items_conventional [OF c, of "map_of [(''12.50'', 12.5), (''3.00'', 3)]"]
  show ?thesis
    using c
    by (simp add: items_of_def List.map_filter_simps spec_listing_def item_price_def
        item_shipping_def item_text_def sp)
qed

section \<open>Properties of the pagination fetcher\<close>

lemma py_slice_to_nonneg: "0 \<le> n \<Longrightarrow> py_slice_to xs n = take (nat n) xs"
  by (simp add: py_slice_to_def)

lemma sold_loop_pages:
  assumes "sold_loop fuel env app_id keyword sold_limit global_id page rt totals sent = (sent', out)"
    and "sent \<noteq> []" and "int (length sent) = page"
    and "ebay_finding_call (net env) (last sent) = Inr rt"
    and "\<forall>i. Suc i < length sent \<longrightarrow>
          (\<exists>r tp. ebay_finding_call (net env) (sent ! i) = Inr r \<and>
             total_pages (str_int env) r = Inr tp \<and>
             sent ! Suc i = sold_request app_id keyword global_id 100 (Some (int i + 2)) \<and>
             int i + 2 \<le> tp)"
  shows "sent' \<noteq> [] \<and> hd sent' = hd sent \<and>
    (\<forall>i. Suc i < length sent' \<longrightarrow>
          (\<exists>r tp. ebay_finding_call (net env) (sent' ! i) = Inr r \<and>
             total_pages (str_int env) r = Inr tp \<and>
             sent' ! Suc i = sold_request app_id keyword global_id 100 (Some (int i + 2)) \<and>
             int i + 2 \<le> tp))"
  using assms
proof (induction fuel arbitrary: page rt totals sent)
  case 0
  then show ?case by simp
next
  case (Suc fuel)
  show ?case
  proof (cases "int (length totals) < sold_limit")
    case False
    with Suc.prems show ?thesis by simp
  next
    case lt: True
    show ?thesis
    proof (cases "total_pages (str_int env) rt")
      case (Inl e)
      with Suc.prems lt show ?thesis by simp
    next
      case (Inr tp)
      show ?thesis
      proof (cases "page + 1 > tp")
        case True
        with Suc.prems lt Inr show ?thesis by simp
      next
        case False
        define req where "req = sold_request app_id keyword global_id 100 (Some (page + 1))"
        have ext: "\<forall>i. Suc i < length (sent @ [req]) \<longrightarrow>
          (\<exists>r tp. ebay_finding_call (net env) ((sent @ [req]) ! i) = Inr r \<and>
             total_pages (str_int env) r = Inr tp \<and>
             (sent @ [req]) ! Suc i = sold_request app_id keyword global_id 100 (Some (int i + 2)) \<and>
             int i + 2 \<le> tp)"
        proof (intro allI impI)
          fix i assume i: "Suc i < length (sent @ [req])"
          show "\<exists>r tp. ebay_finding_call (net env) ((sent @ [req]) ! i) = Inr r \<and>
             total_pages (str_int env) r = Inr tp \<and>
             (sent @ [req]) ! Suc i = sold_request app_id keyword global_id 100 (Some (int i + 2)) \<and>
             int i + 2 \<le> tp"
          proof (cases "Suc i < length sent")
            case True
            with Suc.prems(5) show ?thesis by (simp add: nth_append)
          next
            case False
            with i have e: "Suc i = length sent" by simp
            then have "i = length sent - 1" by simp
            then have "(sent @ [req]) ! i = last sent"
              using Suc.prems(2) by (simp add: nth_append last_conv_nth)
            moreover have pg: "page + 1 = int i + 2" using e Suc.prems(3) by simp
            have "(sent @ [req]) ! Suc i = req" using e by (simp add: nth_append)
            then have "(sent @ [req]) ! Suc i =
                sold_request app_id keyword global_id 100 (Some (int i + 2))"
              by (simp only: req_def pg)
            moreover have "int i + 2 \<le> tp" using pg \<open>\<not> page + 1 > tp\<close> by simp
            ultimately show ?thesis
              using Suc.prems(4) Inr by simp
          qed
        qed
        have ne: "sent @ [req] \<noteq> []" and hd: "hd (sent @ [req]) = hd sent"
          using Suc.prems(2) by simp_all
        show ?thesis
        proof (cases "ebay_finding_call (net env) req")
          case (Inl e)
          with Suc.prems(1) lt Inr False have "sent' = sent @ [req]"
            by (simp add: req_def [symmetric])
          with ext ne hd show ?thesis by simp
        next
          case call: (Inr rt')
          show ?thesis
          proof (cases "parse_sold_totals (str_float env) rt'")
            case (Inl e)
            with Suc.prems(1) lt Inr False call have "sent' = sent @ [req]"
              by (simp add: req_def [symmetric])
            with ext ne hd show ?thesis by simp
          next
            case parsed: (Inr ts)
            with Suc.prems(1) lt Inr False call
            have run: "sold_loop fuel env app_id keyword sold_limit global_id (page + 1) rt'
                (totals @ ts) (sent @ [req]) = (sent', out)"
              by (simp add: req_def [symmetric])
            have "sent' \<noteq> [] \<and> hd sent' = hd (sent @ [req]) \<and>
              (\<forall>i. Suc i < length sent' \<longrightarrow>
                (\<exists>r tp. ebay_finding_call (net env) (sent' ! i) = Inr r \<and>
                   total_pages (str_int env) r = Inr tp \<and>
                   sent' ! Suc i = sold_request app_id keyword global_id 100 (Some (int i + 2)) \<and>
                   int i + 2 \<le> tp))"
            proof (rule Suc.IH [OF run ne])
              show "int (length (sent @ [req])) = page + 1" using Suc.prems(3) by simp
              show "ebay_finding_call (net env) (last (sent @ [req])) = Inr rt'" using call by simp
              show "\<forall>i. Suc i < length (sent @ [req]) \<longrightarrow>
                (\<exists>r tp. ebay_finding_call (net env) ((sent @ [req]) ! i) = Inr r \<and>
                   total_pages (str_int env) r = Inr tp \<and>
                   (sent @ [req]) ! Suc i = sold_request app_id keyword global_id 100 (Some (int i + 2)) \<and>
                   int i + 2 \<le> tp)" by (rule ext)
            qed
            with hd show ?thesis by simp
          qed
        qed
      qed
    qed
  qed
qed

lemma sold_loop_totals:
  assumes "sold_loop fuel env app_id keyword sold_limit global_id page rt totals sent = (sent', out)"
    and "map (page_totals env) sent = map Inr pages" and "totals = concat pages"
    and "out = Some (Inr result)"
  shows "\<exists>pages'. map (page_totals env) sent' = map Inr pages' \<and>
           result = py_slice_to (concat pages') sold_limit"
  using assms
proof (induction fuel arbitrary: page rt totals sent pages)
  case 0
  then show ?case by simp
next
  case (Suc fuel)
  show ?case
  proof (cases "int (length totals) < sold_limit")
    case False
    with Suc.prems show ?thesis by auto
  next
    case lt: True
    show ?thesis
    proof (cases "total_pages (str_int env) rt")
      case (Inl e)
      with Suc.prems lt show ?thesis by simp
    next
      case (Inr tp)
      show ?thesis
      proof (cases "page + 1 > tp")
        case True
        with Suc.prems lt Inr show ?thesis by auto
      next
        case False
        define req where "req = sold_request app_id keyword global_id 100 (Some (page + 1))"
        show ?thesis
        proof (cases "ebay_finding_call (net env) req")
          case (Inl e)
          with Suc.prems lt Inr False show ?thesis
            by (simp add: req_def [symmetric])
        next
          case call: (Inr rt')
          show ?thesis
          proof (cases "parse_sold_totals (str_float env) rt'")
            case (Inl e)
            with Suc.prems lt Inr False call show ?thesis
              by (simp add: req_def [symmetric])
          next
            case parsed: (Inr ts)
            with Suc.prems(1) lt Inr False call
            have run: "sold_loop fuel env app_id keyword sold_limit global_id (page + 1) rt'
                (totals @ ts) (sent @ [req]) = (sent', out)"
              by (simp add: req_def [symmetric])
            have "page_totals env req = Inr ts"
              using call parsed by (simp add: page_totals_def bind_err_def)
            then have m: "map (page_totals env) (sent @ [req]) = map Inr (pages @ [ts])"
              using Suc.prems(2) by simp
            have c: "totals @ ts = concat (pages @ [ts])"
              using Suc.prems(3) by simp
            show ?thesis
              by (rule Suc.IH [OF run m c Suc.prems(4)])
          qed
        qed
      qed
    qed
  qed
qed

lemma sold_loop_ends:
  assumes bound: "\<forall>req r tp. ebay_finding_call (net env) req = Inr r \<longrightarrow>
            total_pages (str_int env) r = Inr tp \<longrightarrow> tp \<le> P"
    and call: "ebay_finding_call (net env) req0 = Inr rt"
    and fuel: "nat (P - page) < fuel"
  shows "snd (sold_loop fuel env app_id keyword sold_limit global_id page rt totals sent) \<noteq> None"
  using call fuel
proof (induction fuel arbitrary: page rt totals sent req0)
  case 0
  then show ?case by simp
next
  case (Suc fuel)
  show ?case
  proof (cases "total_pages (str_int env) rt")
    case (Inl e)
    then show ?thesis by simp
  next
    case (Inr tp)
    with bound Suc.prems(1) have tp: "tp \<le> P" by blast
    show ?thesis
    proof (cases "page + 1 > tp")
      case True
      with Inr show ?thesis by simp
    next
      case False
      with tp Suc.prems(2) have f: "nat (P - (page + 1)) < fuel" by simp
      define req where "req = sold_request app_id keyword global_id 100 (Some (page + 1))"
      show ?thesis
      proof (cases "ebay_finding_call (net env) req")
        case (Inl e)
        with Inr False show ?thesis by (simp add: req_def [symmetric])
      next
        case call: (Inr rt')
        show ?thesis
        proof (cases "parse_sold_totals (str_float env) rt'")
          case (Inl e)
          with Inr False call show ?thesis by (simp add: req_def [symmetric])
        next
          case parsed: (Inr ts)
          from Suc.IH [OF call f]
          show ?thesis
            using Inr False call parsed by (simp add: req_def [symmetric])
        qed
      qed
    qed
  qed
qed

text \<open>
  C4. For every keyword, every target size \<open>sold_limit \<ge> 0\<close> and every behaviour of the
  network, a run of \<^verbatim>\<open>find_sold_totals\<close> that returns a list returns at most
  \<open>sold_limit\<close> totals: the first \<open>sold_limit\<close> of the totals of the pages it fetched,
  in the order the API sent them. The first request carries no page number; every
  later request, the one after request \<open>i\<close>, asks for page \<open>i + 2\<close>, and that number is at
  most the page count reported by the answer to request \<open>i\<close>, the most recent answer at
  that moment. This holds for the requests of every run, also one that ends in an
  exception or has not ended. If no answer reports more than \<open>P\<close> pages, the loop ends
  within \<open>P + 1\<close> turns.
\<close>

theorem find_sold_totals_bounded:
  assumes lim: "0 \<le> sold_limit"
    and run: "find_sold_totals fuel env app_id keyword sold_limit global_id = (sent, out)"
  shows "(\<forall>totals. out = Some (Inr totals) \<longrightarrow>
            length totals \<le> nat sold_limit \<and>
            (\<exists>pages. map (page_totals env) sent = map Inr pages \<and>
               totals = take (nat sold_limit) (concat pages)))
     \<and> sent \<noteq> []
     \<and> hd sent = sold_request app_id keyword global_id (min sold_limit 100) None
     \<and> (\<forall>i. Suc i < length sent \<longrightarrow>
          (\<exists>r tp. ebay_finding_call (net env) (sent ! i) = Inr r \<and>
             total_pages (str_int env) r = Inr tp \<and>
             sent ! Suc i = sold_request app_id keyword global_id 100 (Some (int i + 2)) \<and>
             int i + 2 \<le> tp))
     \<and> ((\<forall>req r tp. ebay_finding_call (net env) req = Inr r \<longrightarrow>
            total_pages (str_int env) r = Inr tp \<longrightarrow> tp \<le> P) \<longrightarrow>
          nat P < fuel \<longrightarrow> out \<noteq> None)"
proof -
  define req where "req = sold_request app_id keyword global_id (min sold_limit 100) None"
  show ?thesis
  proof (cases "ebay_finding_call (net env) req")
    case (Inl e)
    with run have "sent = [req]" "out = Some (Inl e)"
      by (simp_all add: find_sold_totals_def req_def [symmetric])
    then show ?thesis by (simp add: req_def)
  next
    case call: (Inr rt)
    show ?thesis
    proof (cases "parse_sold_totals (str_float env) rt")
      case (Inl e)
      with run call have "sent = [req]" "out = Some (Inl e)"
        by (simp_all add: find_sold_totals_def req_def [symmetric])
      then show ?thesis by (simp add: req_def)
    next
      case parsed: (Inr ts)
      with run call
      have loop: "sold_loop fuel env app_id keyword sold_limit global_id 1 rt ts [req] = (sent, out)"
        by (simp add: find_sold_totals_def req_def [symmetric])
      have pages: "sent \<noteq> [] \<and> hd sent = hd [req] \<and>
        (\<forall>i. Suc i < length sent \<longrightarrow>
          (\<exists>r tp. ebay_finding_call (net env) (sent ! i) = Inr r \<and>
             total_pages (str_int env) r = Inr tp \<and>
             sent ! Suc i = sold_request app_id keyword global_id 100 (Some (int i + 2)) \<and>
             int i + 2 \<le> tp))"
        by (rule sold_loop_pages [OF loop]) (simp_all add: call)
      have first: "map (page_totals env) [req] = map Inr [ts]"
        using call parsed by (simp add: page_totals_def bind_err_def)
      have tot: "\<exists>pages. map (page_totals env) sent = map Inr pages \<and>
               totals = take (nat sold_limit) (concat pages)"
        if "out = Some (Inr totals)" for totals
        using sold_loop_totals [OF loop first _ that] lim by (simp add: py_slice_to_nonneg)
      have ends: "out \<noteq> None"
        if "\<forall>req r tp. ebay_finding_call (net env) req = Inr r \<longrightarrow>
            total_pages (str_int env) r = Inr tp \<longrightarrow> tp \<le> P" "nat P < fuel"
      proof -
        from that(2) have "nat (P - 1) < fuel" by simp
        from sold_loop_ends [OF that(1) call this, of app_id keyword sold_limit global_id ts "[req]"]
        show ?thesis using loop by simp
      qed
      show ?thesis
        using pages tot ends by (auto simp add: req_def)
    qed
  qed
qed

theorem find_sold_totals_bounded_witness:
  "(0 :: int) \<le> 3 \<and>
   find_sold_totals 5
      \<lparr>net = (\<lambda>req. case req_page_number req of
                 None \<Rightarrow> Body (JDict [(''findCompletedItemsResponse'', JList [JDict [(''ack'', JList [JStr ''Success'']),
          (''paginationOutput'', JList [JDict [(''totalPages'', JList [JStr ''2''])]]),
          (''searchResult'', JList [JDict [(''item'', JList [JDict [(''sellingStatus'', JList [JDict [(''currentPrice'', JList [JDict [(''__value__'', JStr ''80.00'')]])]])], JDict [(''sellingStatus'', JList [JDict [(''currentPrice'', JList [JDict [(''__value__'', JStr ''85.00'')]])]])]])]])]])])
               | Some p \<Rightarrow> if p = 2 then Body (JDict [(''findCompletedItemsResponse'', JList [JDict [(''ack'', JList [JStr ''Success'']),
          (''paginationOutput'', JList [JDict [(''totalPages'', JList [JStr ''2''])]]),
          (''searchResult'', JList [JDict [(''item'', JList [JDict [(''sellingStatus'', JList [JDict [(''currentPrice'', JList [JDict [(''__value__'', JStr ''88.00'')]])]]), (''shippingInfo'', JList [JDict [(''shippingServiceCost'', JList [JDict [(''__value__'', JStr ''2.00'')]])]])], JDict [(''sellingStatus'', JList [JDict [(''currentPrice'', JList [JDict [(''__value__'', JStr ''95.00'')]])]])]])]])]])]) else BadStatus),
         str_float = map_of [(''80.00'', 80), (''85.00'', 85), (''88.00'', 88), (''2.00'', 2), (''95.00'', 95)],
         str_int = map_of [(''2'', 2)]\<rparr>
      ''app'' ''game boy'' 3 ''EBAY-GB''
    = ([sold_request ''app'' ''game boy'' ''EBAY-GB'' 3 None,
        sold_request ''app'' ''game boy'' ''EBAY-GB'' 100 (Some 2)],
       Some (Inr [80, 85, 90])) \<and>
   length [80, 85, 90 :: real] \<le> nat 3 \<and>
   (\<exists>pages. map (page_totals
      \<lparr>net = (\<lambda>req. case req_page_number req of
                 None \<Rightarrow> Body (JDict [(''findCompletedItemsResponse'', JList [JDict [(''ack'', JList [JStr ''Success'']),
          (''paginationOutput'', JList [JDict [(''totalPages'', JList [JStr ''2''])]]),
          (''searchResult'', JList [JDict [(''item'', JList [JDict [(''sellingStatus'', JList [JDict [(''currentPrice'', JList [JDict [(''__value__'', JStr ''80.00'')]])]])], JDict [(''sellingStatus'', JList [JDict [(''currentPrice'', JList [JDict [(''__value__'', JStr ''85.00'')]])]])]])]])]])])
               | Some p \<Rightarrow> if p = 2 then Body (JDict [(''findCompletedItemsResponse'', JList [JDict [(''ack'', JList [JStr ''Success'']),
          (''paginationOutput'', JList [JDict [(''totalPages'', JList [JStr ''2''])]]),
          (''searchResult'', JList [JDict [(''item'', JList [JDict [(''sellingStatus'', JList [JDict [(''currentPrice'', JList [JDict [(''__value__'', JStr ''88.00'')]])]]), (''shippingInfo'', JList [JDict [(''shippingServiceCost'', JList [JDict [(''__value__'', JStr ''2.00'')]])]])], JDict [(''sellingStatus'', JList [JDict [(''currentPrice'', JList [JDict [(''__value__'', JStr ''95.00'')]])]])]])]])]])]) else BadStatus),
         str_float = map_of [(''80.00'', 80), (''85.00'', 85), (''88.00'', 88), (''2.00'', 2), (''95.00'', 95)],
         str_int = map_of [(''2'', 2)]\<rparr>)
      [sold_request ''app'' ''game boy'' ''EBAY-GB'' 3 None,
        sold_request ''app'' ''game boy'' ''EBAY-GB'' 100 (Some 2)] = map Inr pages \<and>
      [80, 85, 90] = take (nat 3) (concat pages)) \<and>
   (\<exists>r tp. ebay_finding_call (net
      \<lparr>net = (\<lambda>req. case req_page_number req of
                 None \<Rightarrow> Body (JDict [(''findCompletedItemsResponse'', JList [JDict [(''ack'', JList [JStr ''Success'']),
          (''paginationOutput'', JList [JDict [(''totalPages'', JList [JStr ''2''])]]),
          (''searchResult'', JList [JDict [(''item'', JList [JDict [(''sellingStatus'', JList [JDict [(''currentPrice'', JList [JDict [(''__value__'', JStr ''80.00'')]])]])], JDict [(''sellingStatus'', JList [JDict [(''currentPrice'', JList [JDict [(''__value__'', JStr ''85.00'')]])]])]])]])]])])
               | Some p \<Rightarrow> if p = 2 then Body (JDict [(''findCompletedItemsResponse'', JList [JDict [(''ack'', JList [JStr ''Success'']),
          (''paginationOutput'', JList [JDict [(''totalPages'', JList [JStr ''2''])]]),
          (''searchResult'', JList [JDict [(''item'', JList [JDict [(''sellingStatus'', JList [JDict [(''currentPrice'', JList [JDict [(''__value__'', JStr ''88.00'')]])]]), (''shippingInfo'', JList [JDict [(''shippingServiceCost'', JList [JDict [(''__value__'', JStr ''2.00'')]])]])], JDict [(''sellingStatus'', JList [JDict [(''currentPrice'', JList [JDict [(''__value__'', JStr ''95.00'')]])]])]])]])]])]) else BadStatus),
         str_float = map_of [(''80.00'', 80), (''85.00'', 85), (''88.00'', 88), (''2.00'', 2), (''95.00'', 95)],
         str_int = map_of [(''2'', 2)]\<rparr>)
      (sold_request ''app'' ''game boy'' ''EBAY-GB'' 3 None) = Inr r \<and>
      total_pages (str_int
      \<lparr>net = (\<lambda>req. case req_page_number req of
                 None \<Rightarrow> Body (JDict [(''findCompletedItemsResponse'', JList [JDict [(''ack'', JList [JStr ''Success'']),
          (''paginationOutput'', JList [JDict [(''totalPages'', JList [JStr ''2''])]]),
          (''searchResult'', JList [JDict [(''item'', JList [JDict [(''sellingStatus'', JList [JDict [(''currentPrice'', JList [JDict [(''__value__'', JStr ''80.00'')]])]])], JDict [(''sellingStatus'', JList [JDict [(''currentPrice'', JList [JDict [(''__value__'', JStr ''85.00'')]])]])]])]])]])])
               | Some p \<Rightarrow> if p = 2 then Body (JDict [(''findCompletedItemsResponse'', JList [JDict [(''ack'', JList [JStr ''Success'']),
          (''paginationOutput'', JList [JDict [(''totalPages'', JList [JStr ''2''])]]),
          (''searchResult'', JList [JDict [(''item'', JList [JDict [(''sellingStatus'', JList [JDict [(''currentPrice'', JList [JDict [(''__value__'', JStr ''88.00'')]])]]), (''shippingInfo'', JList [JDict [(''shippingServiceCost'', JList [JDict [(''__value__'', JStr ''2.00'')]])]])], JDict [(''sellingStatus'', JList [JDict [(''currentPrice'', JList [JDict [(''__value__'', JStr ''95.00'')]])]])]])]])]])]) else BadStatus),
         str_float = map_of [(''80.00'', 80), (''85.00'', 85), (''88.00'', 88), (''2.00'', 2), (''95.00'', 95)],
         str_int = map_of [(''2'', 2)]\<rparr>) r = Inr tp \<and> 2 \<le> tp)"
  (is "?lim \<and> find_sold_totals 5 ?E ''app'' ''game boy'' 3 ''EBAY-GB'' = (?S, ?out) \<and> ?len \<and> ?pages \<and> ?bound")
proof -
  have lim: ?lim by simp
  have run: "find_sold_totals 5 ?E ''app'' ''game boy'' 3 ''EBAY-GB'' = (?S, ?out)"
    by (simp add: find_sold_totals_def eval_nat_numeral ebay_finding_call_def sold_request_def
      unwrap_def bind_err_def py_or_def lower_char_def parse_sold_totals_def
      price_and_shipping_def get_price_def total_pages_def py_slice_to_def)
  note th = find_sold_totals_bounded [OF lim run, of 2]
  from th have "\<forall>totals. ?out = Some (Inr totals) \<longrightarrow>
            length totals \<le> nat 3 \<and>
            (\<exists>pages. map (page_totals ?E) ?S = map Inr pages \<and>
               totals = take (nat 3) (concat pages))"
    by (rule conjunct1)
  then have a: "?len \<and> ?pages" by blast
  from th have "\<forall>i. Suc i < length ?S \<longrightarrow>
          (\<exists>r tp. ebay_finding_call (net ?E) (?S ! i) = Inr r \<and>
             total_pages (str_int ?E) r = Inr tp \<and>
             ?S ! Suc i = sold_request ''app'' ''game boy'' ''EBAY-GB'' 100 (Some (int i + 2)) \<and>
             int i + 2 \<le> tp)"
    by (elim conjE)
  from this [rule_format, of 0] have b: ?bound by simp
  from lim run a b show ?thesis by (intro conjI) (rule lim, rule run, simp_all only:)
qed

section \<open>Properties of the pipeline driver\<close>

lemma main_loop_log_irrelevant:
  "final_rows (main_loop fuel env a kws (rows, errs)) =
   final_rows (main_loop fuel env a kws (rows, errs'))"
proof (induction kws arbitrary: rows errs errs')
  case Nil
  show ?case by (simp add: final_rows_def)
next
  case (Cons kw kws)
  show ?case
  proof (cases "fetch_keyword fuel env a kw")
    case None
    then show ?thesis by simp
  next
    case (Some r)
    show ?thesis
    proof (cases r)
      case (Inl e)
      with Some show ?thesis
        using Cons.IH [of rows "errs @ [report_line e kw]" "errs' @ [report_line e kw]"] by simp
    next
      case (Inr fetched)
      show ?thesis
      proof (cases "rows_for a kw (fst fetched) (snd fetched) rows")
        case (Inl e)
        with Some Inr show ?thesis by (simp add: final_rows_def)
      next
        case rows': (Inr rows')
        with Some Inr show ?thesis using Cons.IH [of rows' errs errs'] by simp
      qed
    qed
  qed
qed

lemma main_loop_append:
  "main_loop fuel env a (pre @ post) st =
     (case main_loop fuel env a pre st of
        None \<Rightarrow> None
      | Some (Inl e) \<Rightarrow> Some (Inl e)
      | Some (Inr st') \<Rightarrow> main_loop fuel env a post st')"
proof (induction pre arbitrary: st)
  case Nil
  show ?case by simp
next
  case (Cons kw pre)
  show ?case
    by (simp add: Cons.IH split: option.splits sum.splits)
qed

lemma ebay_finding_call_transport:
  "(nt req = ConnectionFailed \<longrightarrow> ebay_finding_call nt req = Inl RequestException) \<and>
   (nt req = BadStatus \<longrightarrow> ebay_finding_call nt req = Inl HTTPError) \<and>
   (nt req = NotJson \<longrightarrow> ebay_finding_call nt req = Inl ValueError)"
  by (simp add: ebay_finding_call_def)

lemma ebay_finding_call_nack:
  assumes "nt req = Body data"
    and "unwrap data (req_operation req @ ''Response'') (JList [JDict []]) = Inr rt"
    and "unwrap rt ''ack'' (JList [JStr []]) = Inr v"
    and "py_lower (py_or v (JStr [])) = Inr ack"
    and "ack \<noteq> ''success''" and "ack \<noteq> ''warning''"
  shows "ebay_finding_call nt req = Inl (ack_failure rt)"
  using assms by (simp add: ebay_finding_call_def bind_err_def)

lemma fetch_keyword_active_failure:
  assumes "ebay_finding_call (net env)
      (active_request (arg_app_id a) kw (arg_active_limit a) (arg_global_id a)) = Inl e"
  shows "fetch_keyword fuel env a kw = Some (Inl e)"
  using assms by (simp add: fetch_keyword_def find_active_def bind_err_def)

lemma fetch_keyword_sold_failure:
  assumes "find_active env (arg_app_id a) kw (arg_active_limit a) (arg_global_id a) = Inr acts"
    and "ebay_finding_call (net env)
      (sold_request (arg_app_id a) kw (arg_global_id a) (min (arg_sold_limit a) 100) None) = Inl e"
  shows "fetch_keyword fuel env a kw = Some (Inl e)"
  using assms by (simp add: fetch_keyword_def find_sold_totals_def)

text \<open>
  C7. When the fetch of a keyword raises (the body of the \<^verbatim>\<open>try\<close>: \<^verbatim>\<open>find_active\<close>,
  then \<^verbatim>\<open>find_sold_totals\<close>), the loop prints one line for that keyword, leaves the
  rows as they are and goes on with the keywords that remain; the rows of the whole run
  are those of the run without that keyword, wherever the keyword stands in the list.
  A failure of the first call for active listings, or of the first call for sold
  listings, is such a fetch failure; a transport failure and an error status make a call
  raise, and so does an acknowledgement other than success or warning.
\<close>

theorem failed_keyword_is_skipped:
  "(\<forall>e. fetch_keyword fuel env a kw = Some (Inl e) \<longrightarrow>
      main_loop fuel env a (kw # post) (rows, errs)
        = main_loop fuel env a post (rows, errs @ [report_line e kw]) \<and>
      final_rows (main_loop fuel env a (pre @ kw # post) st)
        = final_rows (main_loop fuel env a (pre @ post) st))
   \<and> (\<forall>e. ebay_finding_call (net env)
            (active_request (arg_app_id a) kw (arg_active_limit a) (arg_global_id a)) = Inl e
          \<longrightarrow> fetch_keyword fuel env a kw = Some (Inl e))
   \<and> (\<forall>e acts. find_active env (arg_app_id a) kw (arg_active_limit a) (arg_global_id a) = Inr acts
          \<longrightarrow> ebay_finding_call (net env)
            (sold_request (arg_app_id a) kw (arg_global_id a) (min (arg_sold_limit a) 100) None)
              = Inl e
          \<longrightarrow> fetch_keyword fuel env a kw = Some (Inl e))
   \<and> (\<forall>req. (net env req = ConnectionFailed \<longrightarrow>
                 ebay_finding_call (net env) req = Inl RequestException) \<and>
              (net env req = BadStatus \<longrightarrow> ebay_finding_call (net env) req = Inl HTTPError))
   \<and> (\<forall>req data rt v ack. net env req = Body data \<longrightarrow>
          unwrap data (req_operation req @ ''Response'') (JList [JDict []]) = Inr rt \<longrightarrow>
          unwrap rt ''ack'' (JList [JStr []]) = Inr v \<longrightarrow>
          py_lower (py_or v (JStr [])) = Inr ack \<longrightarrow>
          ack \<noteq> ''success'' \<longrightarrow> ack \<noteq> ''warning'' \<longrightarrow>
          ebay_finding_call (net env) req = Inl (ack_failure rt))"
proof -
  have skip: "main_loop fuel env a (kw # post) (rows, errs)
        = main_loop fuel env a post (rows, errs @ [report_line e kw])"
    if "fetch_keyword fuel env a kw = Some (Inl e)" for e
    using that by simp
  have same: "final_rows (main_loop fuel env a (pre @ kw # post) st)
        = final_rows (main_loop fuel env a (pre @ post) st)"
    if f: "fetch_keyword fuel env a kw = Some (Inl e)" for e
  proof (cases "main_loop fuel env a pre st")
    case None
    then show ?thesis by (simp add: main_loop_append)
  next
    case (Some r)
    show ?thesis
    proof (cases r)
      case (Inl x)
      with Some show ?thesis by (simp add: main_loop_append)
    next
      case (Inr st')
      obtain rows' errs' where st': "st' = (rows', errs')" by (cases st')
      have "final_rows (main_loop fuel env a (kw # post) (rows', errs'))
          = final_rows (main_loop fuel env a post (rows', errs'))"
        using f main_loop_log_irrelevant [of fuel env a post rows' "errs' @ [report_line e kw]" errs']
        by simp
      with Some Inr st' show ?thesis by (simp add: main_loop_append)
    qed
  qed
  have c1: "\<forall>e. fetch_keyword fuel env a kw = Some (Inl e) \<longrightarrow>
      main_loop fuel env a (kw # post) (rows, errs)
        = main_loop fuel env a post (rows, errs @ [report_line e kw]) \<and>
      final_rows (main_loop fuel env a (pre @ kw # post) st)
        = final_rows (main_loop fuel env a (pre @ post) st)"
    using skip same by blast
  have c2: "\<forall>e. ebay_finding_call (net env)
            (active_request (arg_app_id a) kw (arg_active_limit a) (arg_global_id a)) = Inl e
          \<longrightarrow> fetch_keyword fuel env a kw = Some (Inl e)"
    using fetch_keyword_active_failure by blast
  have c3: "\<forall>e acts. find_active env (arg_app_id a) kw (arg_active_limit a) (arg_global_id a) = Inr acts
          \<longrightarrow> ebay_finding_call (net env)
            (sold_request (arg_app_id a) kw (arg_global_id a) (min (arg_sold_limit a) 100) None)
              = Inl e
          \<longrightarrow> fetch_keyword fuel env a kw = Some (Inl e)"
    using fetch_keyword_sold_failure by blast
  have c4: "\<forall>req. (net env req = ConnectionFailed \<longrightarrow>
                 ebay_finding_call (net env) req = Inl RequestException) \<and>
              (net env req = BadStatus \<longrightarrow> ebay_finding_call (net env) req = Inl HTTPError)"
    by (simp add: ebay_finding_call_transport)
  have c5: "\<forall>req data rt v ack. net env req = Body data \<longrightarrow>
          unwrap data (req_operation req @ ''Response'') (JList [JDict []]) = Inr rt \<longrightarrow>
          unwrap rt ''ack'' (JList [JStr []]) = Inr v \<longrightarrow>
          py_lower (py_or v (JStr [])) = Inr ack \<longrightarrow>
          ack \<noteq> ''success'' \<longrightarrow> ack \<noteq> ''warning'' \<longrightarrow>
          ebay_finding_call (net env) req = Inl (ack_failure rt)"
    by (intro allI impI) (rule ebay_finding_call_nack)
  show ?thesis
    by (intro conjI) (rule c1, rule c2, rule c3, rule c4, rule c5)
qed

theorem failed_keyword_is_skipped_witness:
  "fetch_keyword 2
      \<lparr>net = (\<lambda>req.
           if req_keywords req = ''bad'' then BadStatus
           else if req_operation req = ''findItemsByKeywords''
           then Body (JDict [(''findItemsByKeywordsResponse'', JList [JDict [(''ack'', JList [JStr ''Success'']),
          (''searchResult'', JList [JDict [(''item'', JList [JDict [(''title'', JList [JStr ''console'']), (''itemId'', JList [JStr ''1'']),
              (''sellingStatus'', JList [JDict [(''currentPrice'', JList [JDict [(''__value__'', JStr ''15.00'')]])]]),
              (''shippingInfo'', JList [JDict [(''shippingServiceCost'', JList [JDict [(''__value__'', JStr ''5.00'')]])]])]])]])]])])
           else Body (JDict [(''findCompletedItemsResponse'', JList [JDict [(''ack'', JList [JStr ''Success'']),
          (''paginationOutput'', JList [JDict [(''totalPages'', JList [JStr ''1''])]]),
          (''searchResult'', JList [JDict [(''item'', JList [JDict [(''sellingStatus'', JList [JDict [(''currentPrice'', JList [JDict [(''__value__'', JStr ''80.00'')]])]])],
            JDict [(''sellingStatus'', JList [JDict [(''currentPrice'', JList [JDict [(''__value__'', JStr ''85.00'')]])]])],
            JDict [(''sellingStatus'', JList [JDict [(''currentPrice'', JList [JDict [(''__value__'', JStr ''90.00'')]])]])]])]])]])])),
         str_float = map_of [(''15.00'', 15), (''5.00'', 5), (''80.00'', 80), (''85.00'', 85), (''90.00'', 90)],
         str_int = map_of [(''1'', 1)]\<rparr>
      \<lparr>arg_app_id = ''app'', arg_active_limit = 20, arg_sold_limit = 120,
         arg_global_id = ''EBAY-GB'', arg_ebay_fee_rate = 0.128, arg_payment_fee_rate = 0.029,
         arg_payment_fixed_fee = 0.30, arg_shipping_out = 4.50\<rparr>
      ''bad'' = Some (Inl HTTPError) \<and>
   main_loop 2
      \<lparr>net = (\<lambda>req.
           if req_keywords req = ''bad'' then BadStatus
           else if req_operation req = ''findItemsByKeywords''
           then Body (JDict [(''findItemsByKeywordsResponse'', JList [JDict [(''ack'', JList [JStr ''Success'']),
          (''searchResult'', JList [JDict [(''item'', JList [JDict [(''title'', JList [JStr ''console'']), (''itemId'', JList [JStr ''1'']),
              (''sellingStatus'', JList [JDict [(''currentPrice'', JList [JDict [(''__value__'', JStr ''15.00'')]])]]),
              (''shippingInfo'', JList [JDict [(''shippingServiceCost'', JList [JDict [(''__value__'', JStr ''5.00'')]])]])]])]])]])])
           else Body (JDict [(''findCompletedItemsResponse'', JList [JDict [(''ack'', JList [JStr ''Success'']),
          (''paginationOutput'', JList [JDict [(''totalPages'', JList [JStr ''1''])]]),
          (''searchResult'', JList [JDict [(''item'', JList [JDict [(''sellingStatus'', JList [JDict [(''currentPrice'', JList [JDict [(''__value__'', JStr ''80.00'')]])]])],
            JDict [(''sellingStatus'', JList [JDict [(''currentPrice'', JList [JDict [(''__value__'', JStr ''85.00'')]])]])],
            JDict [(''sellingStatus'', JList [JDict [(''currentPrice'', JList [JDict [(''__value__'', JStr ''90.00'')]])]])]])]])]])])),
         str_float = map_of [(''15.00'', 15), (''5.00'', 5), (''80.00'', 80), (''85.00'', 85), (''90.00'', 90)],
         str_int = map_of [(''1'', 1)]\<rparr>
      \<lparr>arg_app_id = ''app'', arg_active_limit = 20, arg_sold_limit = 120,
         arg_global_id = ''EBAY-GB'', arg_ebay_fee_rate = 0.128, arg_payment_fee_rate = 0.029,
         arg_payment_fixed_fee = 0.30, arg_shipping_out = 4.50\<rparr>
      [''bad'', ''good''] ([], [])
    = main_loop 2
      \<lparr>net = (\<lambda>req.
           if req_keywords req = ''bad'' then BadStatus
           else if req_operation req = ''findItemsByKeywords''
           then Body (JDict [(''findItemsByKeywordsResponse'', JList [JDict [(''ack'', JList [JStr ''Success'']),
          (''searchResult'', JList [JDict [(''item'', JList [JDict [(''title'', JList [JStr ''console'']), (''itemId'', JList [JStr ''1'']),
              (''sellingStatus'', JList [JDict [(''currentPrice'', JList [JDict [(''__value__'', JStr ''15.00'')]])]]),
              (''shippingInfo'', JList [JDict [(''shippingServiceCost'', JList [JDict [(''__value__'', JStr ''5.00'')]])]])]])]])]])])
           else Body (JDict [(''findCompletedItemsResponse'', JList [JDict [(''ack'', JList [JStr ''Success'']),
          (''paginationOutput'', JList [JDict [(''totalPages'', JList [JStr ''1''])]]),
          (''searchResult'', JList [JDict [(''item'', JList [JDict [(''sellingStatus'', JList [JDict [(''currentPrice'', JList [JDict [(''__value__'', JStr ''80.00'')]])]])],
            JDict [(''sellingStatus'', JList [JDict [(''currentPrice'', JList [JDict [(''__value__'', JStr ''85.00'')]])]])],
            JDict [(''sellingStatus'', JList [JDict [(''currentPrice'', JList [JDict [(''__value__'', JStr ''90.00'')]])]])]])]])]])])),
         str_float = map_of [(''15.00'', 15), (''5.00'', 5), (''80.00'', 80), (''85.00'', 85), (''90.00'', 90)],
         str_int = map_of [(''1'', 1)]\<rparr>
      \<lparr>arg_app_id = ''app'', arg_active_limit = 20, arg_sold_limit = 120,
         arg_global_id = ''EBAY-GB'', arg_ebay_fee_rate = 0.128, arg_payment_fee_rate = 0.029,
         arg_payment_fixed_fee = 0.30, arg_shipping_out = 4.50\<rparr>
      [''good''] ([], [HttpErrorLine ''bad'']) \<and>
   final_rows (main_loop 2
      \<lparr>net = (\<lambda>req.
           if req_keywords req = ''bad'' then BadStatus
           else if req_operation req = ''findItemsByKeywords''
           then Body (JDict [(''findItemsByKeywordsResponse'', JList [JDict [(''ack'', JList [JStr ''Success'']),
          (''searchResult'', JList [JDict [(''item'', JList [JDict [(''title'', JList [JStr ''console'']), (''itemId'', JList [JStr ''1'']),
              (''sellingStatus'', JList [JDict [(''currentPrice'', JList [JDict [(''__value__'', JStr ''15.00'')]])]]),
              (''shippingInfo'', JList [JDict [(''shippingServiceCost'', JList [JDict [(''__value__'', JStr ''5.00'')]])]])]])]])]])])
           else Body (JDict [(''findCompletedItemsResponse'', JList [JDict [(''ack'', JList [JStr ''Success'']),
          (''paginationOutput'', JList [JDict [(''totalPages'', JList [JStr ''1''])]]),
          (''searchResult'', JList [JDict [(''item'', JList [JDict [(''sellingStatus'', JList [JDict [(''currentPrice'', JList [JDict [(''__value__'', JStr ''80.00'')]])]])],
            JDict [(''sellingStatus'', JList [JDict [(''currentPrice'', JList [JDict [(''__value__'', JStr ''85.00'')]])]])],
            JDict [(''sellingStatus'', JList [JDict [(''currentPrice'', JList [JDict [(''__value__'', JStr ''90.00'')]])]])]])]])]])])),
         str_float = map_of [(''15.00'', 15), (''5.00'', 5), (''80.00'', 80), (''85.00'', 85), (''90.00'', 90)],
         str_int = map_of [(''1'', 1)]\<rparr>
      \<lparr>arg_app_id = ''app'', arg_active_limit = 20, arg_sold_limit = 120,
         arg_global_id = ''EBAY-GB'', arg_ebay_fee_rate = 0.128, arg_payment_fee_rate = 0.029,
         arg_payment_fixed_fee = 0.30, arg_shipping_out = 4.50\<rparr>
      [''bad'', ''good''] ([], []))
    = final_rows (main_loop 2
      \<lparr>net = (\<lambda>req.
           if req_keywords req = ''bad'' then BadStatus
           else if req_operation req = ''findItemsByKeywords''
           then Body (JDict [(''findItemsByKeywordsResponse'', JList [JDict [(''ack'', JList [JStr ''Success'']),
          (''searchResult'', JList [JDict [(''item'', JList [JDict [(''title'', JList [JStr ''console'']), (''itemId'', JList [JStr ''1'']),
              (''sellingStatus'', JList [JDict [(''currentPrice'', JList [JDict [(''__value__'', JStr ''15.00'')]])]]),
              (''shippingInfo'', JList [JDict [(''shippingServiceCost'', JList [JDict [(''__value__'', JStr ''5.00'')]])]])]])]])]])])
           else Body (JDict [(''findCompletedItemsResponse'', JList [JDict [(''ack'', JList [JStr ''Success'']),
          (''paginationOutput'', JList [JDict [(''totalPages'', JList [JStr ''1''])]]),
          (''searchResult'', JList [JDict [(''item'', JList [JDict [(''sellingStatus'', JList [JDict [(''currentPrice'', JList [JDict [(''__value__'', JStr ''80.00'')]])]])],
            JDict [(''sellingStatus'', JList [JDict [(''currentPrice'', JList [JDict [(''__value__'', JStr ''85.00'')]])]])],
            JDict [(''sellingStatus'', JList [JDict [(''currentPrice'', JList [JDict [(''__value__'', JStr ''90.00'')]])]])]])]])]])])),
         str_float = map_of [(''15.00'', 15), (''5.00'', 5), (''80.00'', 80), (''85.00'', 85), (''90.00'', 90)],
         str_int = map_of [(''1'', 1)]\<rparr>
      \<lparr>arg_app_id = ''app'', arg_active_limit = 20, arg_sold_limit = 120,
         arg_global_id = ''EBAY-GB'', arg_ebay_fee_rate = 0.128, arg_payment_fee_rate = 0.029,
         arg_payment_fixed_fee = 0.30, arg_shipping_out = 4.50\<rparr>
      [''good''] ([], [])) \<and>
   (\<exists>row. final_rows (main_loop 2
      \<lparr>net = (\<lambda>req.
           if req_keywords req = ''bad'' then BadStatus
           else if req_operation req = ''findItemsByKeywords''
           then Body (JDict [(''findItemsByKeywordsResponse'', JList [JDict [(''ack'', JList [JStr ''Success'']),
          (''searchResult'', JList [JDict [(''item'', JList [JDict [(''title'', JList [JStr ''console'']), (''itemId'', JList [JStr ''1'']),
              (''sellingStatus'', JList [JDict [(''currentPrice'', JList [JDict [(''__value__'', JStr ''15.00'')]])]]),
              (''shippingInfo'', JList [JDict [(''shippingServiceCost'', JList [JDict [(''__value__'', JStr ''5.00'')]])]])]])]])]])])
           else Body (JDict [(''findCompletedItemsResponse'', JList [JDict [(''ack'', JList [JStr ''Success'']),
          (''paginationOutput'', JList [JDict [(''totalPages'', JList [JStr ''1''])]]),
          (''searchResult'', JList [JDict [(''item'', JList [JDict [(''sellingStatus'', JList [JDict [(''currentPrice'', JList [JDict [(''__value__'', JStr ''80.00'')]])]])],
            JDict [(''sellingStatus'', JList [JDict [(''currentPrice'', JList [JDict [(''__value__'', JStr ''85.00'')]])]])],
            JDict [(''sellingStatus'', JList [JDict [(''currentPrice'', JList [JDict [(''__value__'', JStr ''90.00'')]])]])]])]])]])])),
         str_float = map_of [(''15.00'', 15), (''5.00'', 5), (''80.00'', 80), (''85.00'', 85), (''90.00'', 90)],
         str_int = map_of [(''1'', 1)]\<rparr>
      \<lparr>arg_app_id = ''app'', arg_active_limit = 20, arg_sold_limit = 120,
         arg_global_id = ''EBAY-GB'', arg_ebay_fee_rate = 0.128, arg_payment_fee_rate = 0.029,
         arg_payment_fixed_fee = 0.30, arg_shipping_out = 4.50\<rparr>
      [''good''] ([], [])) = Some (Inr [row]))"
  (is "fetch_keyword 2 ?E ?A ''bad'' = _ \<and> _ \<and> _ \<and> _")
proof -
  note th = failed_keyword_is_skipped [of 2 ?E ?A "''bad''" "[''good'']" "[]" "[]" "[]" "([], [])"]
  have bad: "net ?E (active_request (arg_app_id ?A) ''bad'' (arg_active_limit ?A) (arg_global_id ?A))
      = BadStatus"
    by (simp add: active_request_def)
  from th bad have call: "ebay_finding_call (net ?E)
      (active_request (arg_app_id ?A) ''bad'' (arg_active_limit ?A) (arg_global_id ?A))
      = Inl HTTPError"
    by blast
  with th have fetch: "fetch_keyword 2 ?E ?A ''bad'' = Some (Inl HTTPError)"
    by blast
  with th have skip: "main_loop 2 ?E ?A (''bad'' # [''good'']) ([], [])
        = main_loop 2 ?E ?A [''good''] ([], [] @ [report_line HTTPError ''bad''])"
    and same: "final_rows (main_loop 2 ?E ?A ([] @ ''bad'' # [''good'']) ([], []))
        = final_rows (main_loop 2 ?E ?A ([] @ [''good'']) ([], []))"
    by blast+
  have fa: "find_active ?E ''app'' ''good'' 20 ''EBAY-GB'' = Inr [\<lparr>active_title = ''console'', active_item_id = ''1'', active_url = [],
          active_price_gbp = 15, active_shipping_gbp = 5, active_buy_price_gbp = 20\<rparr>]"
    by (simp add: find_active_def active_request_def ebay_finding_call_def unwrap_def
        bind_err_def py_or_def lower_char_def parse_active_items_def parse_active_item_def
        text_field_def price_and_shipping_def get_price_def strip_def is_space_def)
  have fs: "snd (find_sold_totals 2 ?E ''app'' ''good'' 120 ''EBAY-GB'') = Some (Inr [80, 85, 90])"
    by (simp add: find_sold_totals_def eval_nat_numeral ebay_finding_call_def sold_request_def
        unwrap_def bind_err_def py_or_def lower_char_def parse_sold_totals_def
        price_and_shipping_def get_price_def total_pages_def py_slice_to_def)
  have fk: "fetch_keyword 2 ?E ?A ''good'' = Some (Inr ([\<lparr>active_title = ''console'', active_item_id = ''1'', active_url = [],
          active_price_gbp = 15, active_shipping_gbp = 5, active_buy_price_gbp = 20\<rparr>], [80, 85, 90]))"
  proof -
    have sel: "arg_app_id ?A = ''app''" "arg_active_limit ?A = 20" "arg_sold_limit ?A = 120"
      "arg_global_id ?A = ''EBAY-GB''"
      by simp_all
    show ?thesis
      unfolding fetch_keyword_def sel fa fs by simp
  qed
  have m: "median [80, 85, 90] = Inr 85" by (simp add: median_def)
  obtain row where row: "compute_row ''good'' \<lparr>active_title = ''console'', active_item_id = ''1'', active_url = [],
          active_price_gbp = 15, active_shipping_gbp = 5, active_buy_price_gbp = 20\<rparr> [80, 85, 90] 0.128 0.029 0.30 4.50 = Inr (Some row)"
    by (simp add: compute_row_def compute_estimate_def m py_truediv_def
        MIN_PROFIT_GBP_def MIN_MARGIN_def)
  have fees: "arg_ebay_fee_rate ?A = 0.128" "arg_payment_fee_rate ?A = 0.029"
    "arg_payment_fixed_fee ?A = 0.30" "arg_shipping_out ?A = 4.50"
    by simp_all
  have good: "main_loop 2 ?E ?A [''good''] ([], []) = Some (Inr ([row], []))"
    unfolding main_loop.simps fk by (simp only: rows_for.simps fees row fst_conv snd_conv
        sum.case option.case append_Nil)
  show ?thesis
    using fetch skip same good by (simp add: report_line_def final_rows_def)
qed

section \<open>Properties of the estimator on floats\<close>

lemma OVERFLOW_pos: "0 < OVERFLOW"
  by (simp add: OVERFLOW_def)

lemma fdiv_two: "\<exists>r. fdiv a (Fin 2) = Inr r"
  by (cases a) simp_all

lemma fdiv_positive: "flt (Fin 0) b \<Longrightarrow> \<exists>r. fdiv a b = Inr r"
  by (cases a; cases b) simp_all

lemma median_f_nonempty:
  assumes "xs \<noteq> []" and "length (srt xs) = length xs"
  shows "\<exists>m. median_f srt xs = Inr m"
proof -
  from assms have n: "length (srt xs) \<noteq> 0" by simp
  show ?thesis
  proof (cases "length (srt xs) mod 2 = 1")
    case True
    with n show ?thesis by (simp add: median_f_def Let_def)
  next
    case False
    with n fdiv_two show ?thesis by (simp add: median_f_def Let_def)
  qed
qed

lemma compute_estimate_f_nonempty:
  assumes "sold_totals \<noteq> []" and "length (srt sold_totals) = length sold_totals"
  shows "\<exists>m mg. median_f srt sold_totals = Inr m \<and>
     (if flt (Fin 0) (f_active_buy_price_gbp active)
      then fdiv (fsub (fsub (fsub (fsub m (fmul m efr)) (fadd (fmul m pfr) pff)) so)
                   (f_active_buy_price_gbp active))
             (f_active_buy_price_gbp active) = Inr mg
      else mg = Fin (- 1)) \<and>
     compute_estimate_f srt active sold_totals efr pfr pff so =
       Inr \<lparr>f_median_sold = m, f_ebay_fee = fmul m efr,
            f_payment_fee = fadd (fmul m pfr) pff,
            f_active_buy = f_active_buy_price_gbp active,
            f_expected_profit =
              fsub (fsub (fsub (fsub m (fmul m efr)) (fadd (fmul m pfr) pff)) so)
                (f_active_buy_price_gbp active),
            f_margin = mg\<rparr>"
proof -
  from median_f_nonempty [of sold_totals srt] assms
  obtain m where m: "median_f srt sold_totals = Inr m"
    by blast
  define profit where "profit =
    fsub (fsub (fsub (fsub m (fmul m efr)) (fadd (fmul m pfr) pff)) so)
      (f_active_buy_price_gbp active)"
  show ?thesis
  proof (cases "flt (Fin 0) (f_active_buy_price_gbp active)")
    case True
    from fdiv_positive [OF True, of profit] obtain mg
      where mg: "fdiv profit (f_active_buy_price_gbp active) = Inr mg" by blast
    show ?thesis
      using True mg
      by (intro exI [of _ m] exI [of _ mg])
        (simp add: m compute_estimate_f_def Let_def profit_def)
  next
    case False
    then show ?thesis
      by (intro exI [of _ m] exI [of _ "Fin (- 1)"])
        (simp add: m compute_estimate_f_def Let_def)
  qed
qed

lemma fsub_PInf: "fsub c PInf = NaN \<or> fsub c PInf = NInf"
  by (cases c) (simp_all add: fsub_def)

lemma accepted_cases:
  assumes pos: "flt (Fin 0) buy"
    and d: "fdiv (fsub c buy) buy = Inr mg"
    and np: "\<not> flt (fsub c buy) (Fin 25)"
    and nm: "\<not> flt mg (Fin (1 / 4))"
  shows "(fsub c buy = NaN \<and> mg = NaN) \<or> (fle (Fin 25) (fsub c buy) \<and> fle (Fin (1 / 4)) mg)"
proof (cases buy)
  case (Fin b)
  with pos have b: "0 < b" by simp
  show ?thesis
  proof (cases "fsub c buy")
    case p: (Fin p)
    with d Fin b have "mg = fl (p / b)" by simp
    with nm np p OVERFLOW_pos show ?thesis
      by (auto simp add: fl_def split: if_splits)
  next
    case PInf
    with d Fin b nm show ?thesis by auto
  next
    case NInf
    with np show ?thesis by simp
  next
    case NaN
    with d Fin b show ?thesis by auto
  qed
next
  case PInf
  from fsub_PInf [of c] show ?thesis
  proof
    assume n: "fsub c PInf = NaN"
    with d PInf show ?thesis by simp
  next
    assume "fsub c PInf = NInf"
    with np PInf show ?thesis by simp
  qed
next
  case NInf
  with pos show ?thesis by simp
next
  case NaN
  with pos show ?thesis by simp
qed

lemma floor_le_round_half_even: "\<lfloor>y\<rfloor> \<le> round_half_even y"
  by (simp add: round_half_even_def Let_def)

lemma py_round_ge_25:
  assumes "25 \<le> x"
  shows "25 \<le> py_round x 2" and "25 \<le> py_round x 1"
proof -
  have "(2500 :: int) \<le> \<lfloor>x * 10 ^ 2\<rfloor>" using assms by (simp add: le_floor_iff)
  then have "2500 \<le> round_half_even (x * 10 ^ 2)"
    using floor_le_round_half_even [of "x * 10 ^ 2"] by linarith
  then have "(2500 :: real) \<le> of_int (round_half_even (x * 10 ^ 2))" by linarith
  then show "25 \<le> py_round x 2" by (simp add: py_round_def)
  have "(250 :: int) \<le> \<lfloor>x * 10 ^ 1\<rfloor>" using assms by (simp add: le_floor_iff)
  then have "250 \<le> round_half_even (x * 10 ^ 1)"
    using floor_le_round_half_even [of "x * 10 ^ 1"] by linarith
  then have "(250 :: real) \<le> of_int (round_half_even (x * 10 ^ 1))" by linarith
  then show "25 \<le> py_round x 1" by (simp add: py_round_def)
qed

lemma py_round_Suc_0_ge_25: "25 \<le> x \<Longrightarrow> 25 \<le> py_round x (Suc 0)"
  using py_round_ge_25(2) [of x] by simp

lemma profit_field_ge_25:
  "fle (Fin 25) v \<Longrightarrow> fle (Fin 25) (py_round_f v 2)"
  by (cases v) (simp_all add: py_round_ge_25)

lemma margin_field_ge_25:
  assumes "fle (Fin (1 / 4)) mg"
  shows "fle (Fin 25) (py_round_f (fmul mg (Fin 100)) 1)"
proof (cases mg)
  case (Fin g)
  with assms have g: "1 / 4 \<le> g" by simp
  then have "25 \<le> g * 100" by simp
  with OVERFLOW_pos have "fmul mg (Fin 100) = PInf \<or> fmul mg (Fin 100) = Fin (g * 100)"
    by (simp add: Fin fl_def)
  then show ?thesis
    using \<open>25 \<le> g * 100\<close> by (auto simp add: py_round_Suc_0_ge_25)
qed (use assms in \<open>simp_all add: inf_times_def\<close>)

lemma py_round_f_rounds_to: "rounds_to n v (py_round_f v n)"
  using py_round_close [of _ n] by (cases v) (simp_all add: py_round_has_decimals)

subsection \<open>The acceptance thresholds\<close>

text \<open>
  C1, as the code has it. For every active listing, every non-empty sold sample and
  every fee model, floats of any kind, the estimate exists and \<^verbatim>\<open>compute_row\<close> returns
  a row exactly when neither \<^verbatim>\<open>expected_profit < 25.0\<close> nor \<^verbatim>\<open>margin < 0.25\<close> holds,
  and no row otherwise. A row that is returned carries the rounded expected profit and
  the rounded margin in percent, and either the expected profit and the margin are
  both NaN, or both bounds hold of the estimate (expected profit at least 25.0, margin
  at least 0.25) and of the row (expected profit at least 25.0, margin percent at
  least 25.0).
\<close>

theorem compute_row_f_accepts_iff:
  assumes ne: "sold_totals \<noteq> []" and len: "length (srt sold_totals) = length sold_totals"
  shows "\<exists>m est. median_f srt sold_totals = Inr m \<and>
      compute_estimate_f srt active sold_totals efr pfr pff so = Inr est \<and>
      f_expected_profit est =
        fsub (fsub (fsub (fsub m (fmul m efr)) (fadd (fmul m pfr) pff)) so)
          (f_active_buy_price_gbp active) \<and>
      (if flt (Fin 0) (f_active_buy_price_gbp active)
       then fdiv (f_expected_profit est) (f_active_buy_price_gbp active) = Inr (f_margin est)
       else f_margin est = Fin (- 1)) \<and>
      ((\<exists>row. compute_row_f srt kw active sold_totals efr pfr pff so = Inr (Some row))
         \<longleftrightarrow> (\<not> flt (f_expected_profit est) (Fin 25.0) \<and> \<not> flt (f_margin est) (Fin 0.25))) \<and>
      (compute_row_f srt kw active sold_totals efr pfr pff so = Inr None
         \<longleftrightarrow> (flt (f_expected_profit est) (Fin 25.0) \<or> flt (f_margin est) (Fin 0.25))) \<and>
      (\<forall>row. compute_row_f srt kw active sold_totals efr pfr pff so = Inr (Some row) \<longrightarrow>
         f_row_expected_profit_gbp row = py_round_f (f_expected_profit est) 2 \<and>
         f_row_margin_percent row = py_round_f (fmul (f_margin est) (Fin 100)) 1 \<and>
         ((f_expected_profit est = NaN \<and> f_margin est = NaN) \<or>
          (fle (Fin 25.0) (f_expected_profit est) \<and> fle (Fin 0.25) (f_margin est) \<and>
           fle (Fin 25.0) (f_row_expected_profit_gbp row) \<and>
           fle (Fin 25.0) (f_row_margin_percent row))))"
proof -
  let ?buy = "f_active_buy_price_gbp active"
  from compute_estimate_f_nonempty [of sold_totals srt active efr pfr pff so] ne len
  obtain m mg where m: "median_f srt sold_totals = Inr m"
    and g: "if flt (Fin 0) ?buy
      then fdiv (fsub (fsub (fsub (fsub m (fmul m efr)) (fadd (fmul m pfr) pff)) so) ?buy) ?buy
             = Inr mg
      else mg = Fin (- 1)"
    and e: "compute_estimate_f srt active sold_totals efr pfr pff so =
       Inr \<lparr>f_median_sold = m, f_ebay_fee = fmul m efr,
            f_payment_fee = fadd (fmul m pfr) pff, f_active_buy = ?buy,
            f_expected_profit =
              fsub (fsub (fsub (fsub m (fmul m efr)) (fadd (fmul m pfr) pff)) so) ?buy,
            f_margin = mg\<rparr>"
    by blast
  define c where "c = fsub (fsub (fsub m (fmul m efr)) (fadd (fmul m pfr) pff)) so"
  define est where "est = \<lparr>f_median_sold = m, f_ebay_fee = fmul m efr,
            f_payment_fee = fadd (fmul m pfr) pff, f_active_buy = ?buy,
            f_expected_profit = fsub c ?buy, f_margin = mg\<rparr>"
  have est: "compute_estimate_f srt active sold_totals efr pfr pff so = Inr est"
    using e by (simp add: est_def c_def)
  have p: "f_expected_profit est = fsub c ?buy" and mg: "f_margin est = mg"
    by (simp_all add: est_def)
  have g': "if flt (Fin 0) ?buy then fdiv (fsub c ?buy) ?buy = Inr mg else mg = Fin (- 1)"
    using g by (simp add: c_def)
  have acc: "(\<exists>row. compute_row_f srt kw active sold_totals efr pfr pff so = Inr (Some row))
         \<longleftrightarrow> (\<not> flt (fsub c ?buy) (Fin 25) \<and> \<not> flt mg (Fin (1 / 4)))"
    using ne by (simp add: compute_row_f_def est p mg MIN_PROFIT_GBP_def MIN_MARGIN_def)
  have rej: "compute_row_f srt kw active sold_totals efr pfr pff so = Inr None
         \<longleftrightarrow> (flt (fsub c ?buy) (Fin 25) \<or> flt mg (Fin (1 / 4)))"
    using ne by (simp add: compute_row_f_def est p mg MIN_PROFIT_GBP_def MIN_MARGIN_def)
  have row: "f_row_expected_profit_gbp row = py_round_f (fsub c ?buy) 2 \<and>
         f_row_margin_percent row = py_round_f (fmul mg (Fin 100)) 1 \<and>
         ((fsub c ?buy = NaN \<and> mg = NaN) \<or>
          (fle (Fin 25) (fsub c ?buy) \<and> fle (Fin (1 / 4)) mg \<and>
           fle (Fin 25) (f_row_expected_profit_gbp row) \<and>
           fle (Fin 25) (f_row_margin_percent row)))"
    if r: "compute_row_f srt kw active sold_totals efr pfr pff so = Inr (Some row)" for row
  proof -
    from r acc have np: "\<not> flt (fsub c ?buy) (Fin 25)" and nm: "\<not> flt mg (Fin (1 / 4))"
      by blast+
    from r np nm ne have f: "f_row_expected_profit_gbp row = py_round_f (fsub c ?buy) 2"
      "f_row_margin_percent row = py_round_f (fmul mg (Fin 100)) 1"
      by (auto simp add: compute_row_f_def est p mg MIN_PROFIT_GBP_def MIN_MARGIN_def)
    have pos: "flt (Fin 0) ?buy"
    proof (rule ccontr)
      assume "\<not> flt (Fin 0) ?buy"
      with g' have "mg = Fin (- 1)" by simp
      with nm show False by simp
    qed
    with g' have d: "fdiv (fsub c ?buy) ?buy = Inr mg" by simp
    from accepted_cases [OF pos d np nm]
    show ?thesis
      using f profit_field_ge_25 margin_field_ge_25 by auto
  qed
  have A: "f_expected_profit est =
        fsub (fsub (fsub (fsub m (fmul m efr)) (fadd (fmul m pfr) pff)) so)
          (f_active_buy_price_gbp active)"
    by (simp add: est_def c_def)
  have B: "if flt (Fin 0) (f_active_buy_price_gbp active)
       then fdiv (f_expected_profit est) (f_active_buy_price_gbp active) = Inr (f_margin est)
       else f_margin est = Fin (- 1)"
    using g' by (simp add: p mg)
  have C: "(\<exists>row. compute_row_f srt kw active sold_totals efr pfr pff so = Inr (Some row))
         \<longleftrightarrow> (\<not> flt (f_expected_profit est) (Fin 25.0) \<and> \<not> flt (f_margin est) (Fin 0.25))"
    using acc by (simp add: p mg)
  have D: "compute_row_f srt kw active sold_totals efr pfr pff so = Inr None
         \<longleftrightarrow> (flt (f_expected_profit est) (Fin 25.0) \<or> flt (f_margin est) (Fin 0.25))"
    using rej by (simp add: p mg)
  have E: "\<forall>row. compute_row_f srt kw active sold_totals efr pfr pff so = Inr (Some row) \<longrightarrow>
         f_row_expected_profit_gbp row = py_round_f (f_expected_profit est) 2 \<and>
         f_row_margin_percent row = py_round_f (fmul (f_margin est) (Fin 100)) 1 \<and>
         ((f_expected_profit est = NaN \<and> f_margin est = NaN) \<or>
          (fle (Fin 25.0) (f_expected_profit est) \<and> fle (Fin 0.25) (f_margin est) \<and>
           fle (Fin 25.0) (f_row_expected_profit_gbp row) \<and>
           fle (Fin 25.0) (f_row_margin_percent row)))"
  proof (intro allI impI)
    fix row
    assume "compute_row_f srt kw active sold_totals efr pfr pff so = Inr (Some row)"
    from row [OF this] show "f_row_expected_profit_gbp row = py_round_f (f_expected_profit est) 2 \<and>
         f_row_margin_percent row = py_round_f (fmul (f_margin est) (Fin 100)) 1 \<and>
         ((f_expected_profit est = NaN \<and> f_margin est = NaN) \<or>
          (fle (Fin 25.0) (f_expected_profit est) \<and> fle (Fin 0.25) (f_margin est) \<and>
           fle (Fin 25.0) (f_row_expected_profit_gbp row) \<and>
           fle (Fin 25.0) (f_row_margin_percent row)))"
      by (auto simp add: p mg)
  qed
  show ?thesis
    by (rule exI [of _ m], rule exI [of _ est]) (intro conjI m est A B C D E)
qed

text \<open>
  C1 as stated fails: a row is returned although its expected profit is not at least
  25.0. The sample holds two finite prices whose sum overflows, so the median is an
  infinity, the expected profit is NaN, and neither test of lines 236 and 238 holds of
  NaN.
\<close>

theorem compute_row_f_accepts_nan_profit:
  "\<exists>est row.
     compute_estimate_f sorted_f
       \<lparr>f_active_title = ''console'', f_active_item_id = ''1'', f_active_url = ''u'',
      f_active_price_gbp = Fin 15, f_active_shipping_gbp = Fin 5,
      f_active_buy_price_gbp = Fin 20\<rparr>
       [Fin (15 * 10 ^ 307), Fin (15 * 10 ^ 307)] (Fin 0.128) (Fin 0.029) (Fin 0.30) (Fin 4.50) = Inr est \<and>
     f_expected_profit est = NaN \<and> f_margin est = NaN \<and>
     \<not> fle (Fin 25.0) (f_expected_profit est) \<and> \<not> fle (Fin 0.25) (f_margin est) \<and>
     compute_row_f sorted_f ''game boy''
       \<lparr>f_active_title = ''console'', f_active_item_id = ''1'', f_active_url = ''u'',
      f_active_price_gbp = Fin 15, f_active_shipping_gbp = Fin 5,
      f_active_buy_price_gbp = Fin 20\<rparr>
       [Fin (15 * 10 ^ 307), Fin (15 * 10 ^ 307)] (Fin 0.128) (Fin 0.029) (Fin 0.30) (Fin 4.50) = Inr (Some row) \<and>
     f_row_expected_profit_gbp row = NaN \<and> f_row_margin_percent row = NaN"
proof -
  have est: "compute_estimate_f sorted_f
       \<lparr>f_active_title = ''console'', f_active_item_id = ''1'', f_active_url = ''u'',
      f_active_price_gbp = Fin 15, f_active_shipping_gbp = Fin 5,
      f_active_buy_price_gbp = Fin 20\<rparr>
       [Fin (15 * 10 ^ 307), Fin (15 * 10 ^ 307)] (Fin 0.128) (Fin 0.029) (Fin 0.30) (Fin 4.50) =
     Inr \<lparr>f_median_sold = PInf, f_ebay_fee = PInf, f_payment_fee = PInf,
          f_active_buy = Fin 20, f_expected_profit = NaN, f_margin = NaN\<rparr>"
    by (simp add: compute_estimate_f_def median_f_def sorted_f_def fl_def OVERFLOW_def
        inf_times_def fsub_def)
  show ?thesis
    unfolding compute_row_f_def est by (simp add: MIN_PROFIT_GBP_def MIN_MARGIN_def)
qed

theorem compute_row_f_accepts_iff_witness:
  "[Fin 90, Fin 80, Fin 85] \<noteq> [] \<and> length (sorted_f [Fin 90, Fin 80, Fin 85]) = length [Fin 90, Fin 80, Fin 85] \<and>
   (\<exists>row. compute_row_f sorted_f ''game boy''
       \<lparr>f_active_title = ''console'', f_active_item_id = ''1'', f_active_url = ''u'',
      f_active_price_gbp = Fin 15, f_active_shipping_gbp = Fin 5,
      f_active_buy_price_gbp = Fin 20\<rparr>
       [Fin 90, Fin 80, Fin 85] (Fin 0.128) (Fin 0.029) (Fin 0.30) (Fin 4.50) = Inr (Some row) \<and>
     fle (Fin 25.0) (f_row_expected_profit_gbp row) \<and>
     fle (Fin 25.0) (f_row_margin_percent row))"
proof -
  have ne: "[Fin 90, Fin 80, Fin 85] \<noteq> []" by simp
  have len: "length (sorted_f [Fin 90, Fin 80, Fin 85]) = length [Fin 90, Fin 80, Fin 85]"
    by (simp add: sorted_f_def)
  have m: "median_f sorted_f [Fin 90, Fin 80, Fin 85] = Inr (Fin 85)"
    by (simp add: median_f_def sorted_f_def)
  have est: "compute_estimate_f sorted_f
       \<lparr>f_active_title = ''console'', f_active_item_id = ''1'', f_active_url = ''u'',
      f_active_price_gbp = Fin 15, f_active_shipping_gbp = Fin 5,
      f_active_buy_price_gbp = Fin 20\<rparr>
       [Fin 90, Fin 80, Fin 85] (Fin 0.128) (Fin 0.029) (Fin 0.30) (Fin 4.50) =
     Inr \<lparr>f_median_sold = Fin 85, f_ebay_fee = Fin 10.88, f_payment_fee = Fin 2.765,
          f_active_buy = Fin 20, f_expected_profit = Fin 46.855, f_margin = Fin 2.34275\<rparr>"
    by (simp add: compute_estimate_f_def m fsub_def fl_def OVERFLOW_def)
  from compute_row_f_accepts_iff [where sold_totals = "[Fin 90, Fin 80, Fin 85]"
      and srt = sorted_f and efr = "Fin 0.128" and pfr = "Fin 0.029" and pff = "Fin 0.30"
      and so = "Fin 4.50" and kw = "''game boy''" and active =
      "\<lparr>f_active_title = ''console'', f_active_item_id = ''1'', f_active_url = ''u'',
      f_active_price_gbp = Fin 15, f_active_shipping_gbp = Fin 5,
      f_active_buy_price_gbp = Fin 20\<rparr>"] ne len
  show ?thesis
    unfolding est by auto
qed

subsection \<open>Rounding of the output fields\<close>

text \<open>
  C9, as the code has it. In every row \<^verbatim>\<open>compute_row\<close> returns, each of the six
  currency fields (buy price, median sold price, marketplace fee, payment fee, outbound
  shipping, expected profit) is \<^verbatim>\<open>round(v, 2)\<close> of the value \<open>v\<close> the estimator computed,
  and the margin field is \<^verbatim>\<open>round(margin * 100, 1)\<close>. Where \<open>v\<close> is finite the field is
  a number with 2 decimal places (1 for the margin) within half a unit of the last
  place of \<open>v\<close>; where \<open>v\<close> is NaN or an infinity the field is \<open>v\<close> itself. So a field
  has its decimal places exactly when the value it rounds is finite.
\<close>

theorem compute_row_f_rounding:
  assumes "compute_row_f srt kw active sold_totals efr pfr pff so = Inr (Some row)"
  shows "\<exists>est. compute_estimate_f srt active sold_totals efr pfr pff so = Inr est \<and>
     f_row_active_buy_price_gbp row = py_round_f (f_active_buy est) 2 \<and>
     f_row_median_sold_price_gbp row = py_round_f (f_median_sold est) 2 \<and>
     f_row_ebay_fee_gbp row = py_round_f (f_ebay_fee est) 2 \<and>
     f_row_payment_fee_gbp row = py_round_f (f_payment_fee est) 2 \<and>
     f_row_shipping_out_gbp row = py_round_f so 2 \<and>
     f_row_expected_profit_gbp row = py_round_f (f_expected_profit est) 2 \<and>
     f_row_margin_percent row = py_round_f (fmul (f_margin est) (Fin 100)) 1 \<and>
     rounds_to 2 (f_active_buy est) (f_row_active_buy_price_gbp row) \<and>
     rounds_to 2 (f_median_sold est) (f_row_median_sold_price_gbp row) \<and>
     rounds_to 2 (f_ebay_fee est) (f_row_ebay_fee_gbp row) \<and>
     rounds_to 2 (f_payment_fee est) (f_row_payment_fee_gbp row) \<and>
     rounds_to 2 so (f_row_shipping_out_gbp row) \<and>
     rounds_to 2 (f_expected_profit est) (f_row_expected_profit_gbp row) \<and>
     rounds_to 1 (fmul (f_margin est) (Fin 100)) (f_row_margin_percent row) \<and>
     rounded_to 2 (f_row_active_buy_price_gbp row) = is_finite (f_active_buy est) \<and>
     rounded_to 2 (f_row_median_sold_price_gbp row) = is_finite (f_median_sold est) \<and>
     rounded_to 2 (f_row_ebay_fee_gbp row) = is_finite (f_ebay_fee est) \<and>
     rounded_to 2 (f_row_payment_fee_gbp row) = is_finite (f_payment_fee est) \<and>
     rounded_to 2 (f_row_shipping_out_gbp row) = is_finite so \<and>
     rounded_to 2 (f_row_expected_profit_gbp row) = is_finite (f_expected_profit est) \<and>
     rounded_to 1 (f_row_margin_percent row) = is_finite (fmul (f_margin est) (Fin 100))"
proof -
  from assms obtain est
    where est: "compute_estimate_f srt active sold_totals efr pfr pff so = Inr est"
    by (auto simp add: compute_row_f_def split: if_splits sum.splits)
  from assms est have row: "row =
      \<lparr>f_row_keyword = kw, f_row_active_title = f_active_title active,
       f_row_active_item_id = f_active_item_id active, f_row_active_url = f_active_url active,
       f_row_active_buy_price_gbp = py_round_f (f_active_buy est) 2,
       f_row_median_sold_price_gbp = py_round_f (f_median_sold est) 2,
       f_row_sold_sample_size = length sold_totals,
       f_row_ebay_fee_gbp = py_round_f (f_ebay_fee est) 2,
       f_row_payment_fee_gbp = py_round_f (f_payment_fee est) 2,
       f_row_shipping_out_gbp = py_round_f so 2,
       f_row_expected_profit_gbp = py_round_f (f_expected_profit est) 2,
       f_row_margin_percent = py_round_f (fmul (f_margin est) (Fin 100)) 1\<rparr>"
    by (simp add: compute_row_f_def split: if_splits)
  have fin: "rounded_to n (py_round_f v n) = is_finite v" for n v
    by (cases v) (simp_all add: py_round_has_decimals)
  show ?thesis
    by (rule exI [of _ est]) (simp add: est row py_round_f_rounds_to fin)
qed

text \<open>
  C9 as stated fails: with a sold sample that holds a NaN (the price string
  \<^verbatim>\<open>"NaN"\<close> converts) a row is returned whose median, fees, expected profit and
  margin are NaN, not numbers with 2 decimal places or 1.
\<close>

theorem compute_row_f_nan_fields:
  "\<exists>row. compute_row_f sorted_f ''game boy''
       \<lparr>f_active_title = ''console'', f_active_item_id = ''1'', f_active_url = ''u'',
      f_active_price_gbp = Fin 15, f_active_shipping_gbp = Fin 5,
      f_active_buy_price_gbp = Fin 20\<rparr>
       [NaN] (Fin 0.128) (Fin 0.029) (Fin 0.30) (Fin 4.50) = Inr (Some row) \<and>
     f_row_median_sold_price_gbp row = NaN \<and>
     f_row_expected_profit_gbp row = NaN \<and>
     \<not> rounded_to 2 (f_row_median_sold_price_gbp row) \<and>
     \<not> rounded_to 2 (f_row_ebay_fee_gbp row) \<and>
     \<not> rounded_to 2 (f_row_payment_fee_gbp row) \<and>
     \<not> rounded_to 2 (f_row_expected_profit_gbp row) \<and>
     \<not> rounded_to 1 (f_row_margin_percent row)"
  by (simp add: compute_row_f_def compute_estimate_f_def median_f_def sorted_f_def fsub_def)

theorem compute_row_f_rounding_witness:
  "\<exists>row. compute_row_f sorted_f ''game boy''
       \<lparr>f_active_title = ''console'', f_active_item_id = ''1'', f_active_url = ''u'',
      f_active_price_gbp = Fin 15, f_active_shipping_gbp = Fin 5,
      f_active_buy_price_gbp = Fin 20\<rparr>
       [Fin 90, Fin 80, Fin 85] (Fin 0.128) (Fin 0.029) (Fin 0.30) (Fin 4.50) = Inr (Some row) \<and>
     rounds_to 2 (Fin 46.855) (f_row_expected_profit_gbp row) \<and>
     rounded_to 2 (f_row_expected_profit_gbp row) \<and>
     rounds_to 1 (Fin 234.275) (f_row_margin_percent row) \<and>
     rounded_to 1 (f_row_margin_percent row)"
proof -
  have m: "median_f sorted_f [Fin 90, Fin 80, Fin 85] = Inr (Fin 85)"
    by (simp add: median_f_def sorted_f_def)
  have est: "compute_estimate_f sorted_f
       \<lparr>f_active_title = ''console'', f_active_item_id = ''1'', f_active_url = ''u'',
      f_active_price_gbp = Fin 15, f_active_shipping_gbp = Fin 5,
      f_active_buy_price_gbp = Fin 20\<rparr>
       [Fin 90, Fin 80, Fin 85] (Fin 0.128) (Fin 0.029) (Fin 0.30) (Fin 4.50) =
     Inr \<lparr>f_median_sold = Fin 85, f_ebay_fee = Fin 10.88, f_payment_fee = Fin 2.765,
          f_active_buy = Fin 20, f_expected_profit = Fin 46.855, f_margin = Fin 2.34275\<rparr>"
    by (simp add: compute_estimate_f_def m fsub_def fl_def OVERFLOW_def)
  obtain row where row: "compute_row_f sorted_f ''game boy''
       \<lparr>f_active_title = ''console'', f_active_item_id = ''1'', f_active_url = ''u'',
      f_active_price_gbp = Fin 15, f_active_shipping_gbp = Fin 5,
      f_active_buy_price_gbp = Fin 20\<rparr>
       [Fin 90, Fin 80, Fin 85] (Fin 0.128) (Fin 0.029) (Fin 0.30) (Fin 4.50) = Inr (Some row)"
    by (simp add: compute_row_f_def compute_estimate_f_def m fsub_def fl_def OVERFLOW_def
        MIN_PROFIT_GBP_def MIN_MARGIN_def)
  from compute_row_f_rounding [OF row] show ?thesis
    unfolding est using row by (auto simp add: fl_def OVERFLOW_def)
qed

subsection \<open>The two models agree where every result stays finite\<close>

lemma fl_in_range: "in_range x \<Longrightarrow> fl x = Fin x"
  by (simp add: in_range_def fl_def)

lemma in_range_half: "in_range (2 * x) \<Longrightarrow> in_range x"
  using OVERFLOW_pos by (simp add: in_range_def)

lemma fadd_finite: "in_range (x + y) \<Longrightarrow> fadd (Fin x) (Fin y) = Fin (x + y)"
  by (simp add: fl_in_range)

lemma fsub_finite: "in_range (x - y) \<Longrightarrow> fsub (Fin x) (Fin y) = Fin (x - y)"
  by (simp add: fsub_def fl_in_range)

lemma fmul_finite: "in_range (x * y) \<Longrightarrow> fmul (Fin x) (Fin y) = Fin (x * y)"
  by (simp add: fl_in_range)

lemma insert_f_Fin: "insert_f (Fin x) (map Fin ys) = map Fin (insort x ys)"
  by (induction ys) auto

lemma sorted_f_Fin: "sorted_f (map Fin xs) = map Fin (sort xs)"
  by (induction xs) (simp_all add: sorted_f_def insert_f_Fin)

lemma median_f_finite:
  assumes ne: "xs \<noteq> []" and m: "median xs = Inr m" and r: "in_range (2 * m)"
  shows "median_f sorted_f (map Fin xs) = Inr (Fin m)"
proof -
  have n: "length (sort xs) \<noteq> 0" using ne by simp
  show ?thesis
  proof (cases "length xs mod 2 = 1")
    case True
    then have k: "length xs div 2 < length (sort xs)" using ne by simp
    from m True ne have "m = sort xs ! (length xs div 2)"
      by (simp add: median_eq)
    with True n k show ?thesis
      by (simp add: median_f_def sorted_f_Fin Let_def del: length_0_conv)
  next
    case False
    define i where "i = length xs div 2"
    from ne have "length xs \<noteq> 0" by simp
    with False have i: "0 < i" "i < length (sort xs)"
      unfolding i_def length_sort by presburger+
    from m False ne have mm: "m = (sort xs ! (i - 1) + sort xs ! i) / 2"
      by (simp add: median_eq i_def)
    then have s: "sort xs ! (i - 1) + sort xs ! i = 2 * m" by simp
    have a: "map Fin (sort xs) ! (i - 1) = Fin (sort xs ! (i - 1))"
      "map Fin (sort xs) ! i = Fin (sort xs ! i)"
      using i by simp_all
    have "fadd (Fin (sort xs ! (i - 1))) (Fin (sort xs ! i)) = Fin (2 * m)"
      using r s by (simp add: fl_in_range)
    moreover have "fdiv (Fin (2 * m)) (Fin 2) = Inr (Fin m)"
      using in_range_half [OF r] by (simp add: fl_in_range)
    ultimately show ?thesis
      using False n a
      by (simp add: median_f_def sorted_f_Fin Let_def i_def [symmetric] del: length_0_conv)
  qed
qed

lemma compute_estimate_f_finite:
  assumes ne: "sold_totals \<noteq> []"
    and est: "compute_estimate a sold_totals efr pfr pff so = Inr est"
    and fin: "stays_finite est pfr so"
  shows "compute_estimate_f sorted_f (listing_f a) (map Fin sold_totals)
           (Fin efr) (Fin pfr) (Fin pff) (Fin so) = Inr (estimate_f_of est)"
proof -
  from compute_estimate_nonempty [OF ne, of a efr pfr pff so] est
  obtain m where m: "median sold_totals = Inr m"
    and e: "est = \<lparr>median_sold = m, ebay_fee = m * efr, payment_fee = m * pfr + pff,
            active_buy = active_buy_price_gbp a,
            expected_profit = m - m * efr - (m * pfr + pff) - so - active_buy_price_gbp a,
            margin = (if active_buy_price_gbp a > 0
                      then (m - m * efr - (m * pfr + pff) - so - active_buy_price_gbp a)
                             / active_buy_price_gbp a
                      else - 1)\<rparr>"
    by auto
  from fin have r: "in_range (2 * m)" "in_range (m * efr)" "in_range (m * pfr)"
    "in_range (m * pfr + pff)" "in_range (m - m * efr)"
    "in_range (m - m * efr - (m * pfr + pff))"
    "in_range (m - m * efr - (m * pfr + pff) - so)"
    "in_range (m - m * efr - (m * pfr + pff) - so - active_buy_price_gbp a)"
    and rm: "in_range (margin est)"
    by (simp_all add: stays_finite_def e)
  have mf: "median_f sorted_f (map Fin sold_totals) = Inr (Fin m)"
    by (rule median_f_finite [OF ne m r(1)])
  have fee: "fmul (Fin m) (Fin efr) = Fin (m * efr)"
    and p1: "fmul (Fin m) (Fin pfr) = Fin (m * pfr)"
    and pay: "fadd (Fin (m * pfr)) (Fin pff) = Fin (m * pfr + pff)"
    and s1: "fsub (Fin m) (Fin (m * efr)) = Fin (m - m * efr)"
    and s2: "fsub (Fin (m - m * efr)) (Fin (m * pfr + pff)) = Fin (m - m * efr - (m * pfr + pff))"
    and s3: "fsub (Fin (m - m * efr - (m * pfr + pff))) (Fin so)
              = Fin (m - m * efr - (m * pfr + pff) - so)"
    and s4: "fsub (Fin (m - m * efr - (m * pfr + pff) - so)) (Fin (active_buy_price_gbp a))
              = Fin (m - m * efr - (m * pfr + pff) - so - active_buy_price_gbp a)"
    by (rule fmul_finite [OF r(2)], rule fmul_finite [OF r(3)], rule fadd_finite [OF r(4)],
        rule fsub_finite [OF r(5)], rule fsub_finite [OF r(6)], rule fsub_finite [OF r(7)],
        rule fsub_finite [OF r(8)])
  have buyf: "f_active_buy_price_gbp (listing_f a) = Fin (active_buy_price_gbp a)"
    by (simp add: listing_f_def)
  have step: "compute_estimate_f sorted_f (listing_f a) (map Fin sold_totals)
           (Fin efr) (Fin pfr) (Fin pff) (Fin so) =
      (case (if flt (Fin 0) (Fin (active_buy_price_gbp a))
             then fdiv (Fin (m - m * efr - (m * pfr + pff) - so - active_buy_price_gbp a))
                    (Fin (active_buy_price_gbp a))
             else Inr (Fin (- 1))) of
         Inl e \<Rightarrow> Inl e
       | Inr mg \<Rightarrow>
           Inr \<lparr>f_median_sold = Fin m, f_ebay_fee = Fin (m * efr),
                f_payment_fee = Fin (m * pfr + pff),
                f_active_buy = Fin (active_buy_price_gbp a),
                f_expected_profit =
                  Fin (m - m * efr - (m * pfr + pff) - so - active_buy_price_gbp a),
                f_margin = mg\<rparr>)"
    unfolding compute_estimate_f_def mf
    by (simp only: sum.case Let_def buyf fee p1 pay s1 s2 s3 s4)
  show ?thesis
  proof (cases "active_buy_price_gbp a > 0")
    case True
    with rm have "fl ((m - m * efr - (m * pfr + pff) - so - active_buy_price_gbp a)
        / active_buy_price_gbp a) = Fin (margin est)"
      by (simp add: e fl_in_range)
    with True have "fdiv (Fin (m - m * efr - (m * pfr + pff) - so - active_buy_price_gbp a))
                    (Fin (active_buy_price_gbp a)) = Inr (Fin (margin est))"
      by simp
    with True show ?thesis
      unfolding step by (simp add: estimate_f_of_def e)
  next
    case False
    then show ?thesis
      unfolding step by (simp add: estimate_f_of_def e)
  qed
qed

lemma compute_row_f_finite:
  assumes ne: "sold_totals \<noteq> []"
    and est: "compute_estimate a sold_totals efr pfr pff so = Inr est"
    and fin: "stays_finite est pfr so"
  shows "compute_row_f sorted_f kw (listing_f a) (map Fin sold_totals)
           (Fin efr) (Fin pfr) (Fin pff) (Fin so)
         = map_sum id (map_option row_f_of) (compute_row kw a sold_totals efr pfr pff so)"
proof -
  have ef: "compute_estimate_f sorted_f (listing_f a) (map Fin sold_totals)
           (Fin efr) (Fin pfr) (Fin pff) (Fin so) = Inr (estimate_f_of est)"
    by (rule compute_estimate_f_finite [OF ne est fin])
  from fin have "fmul (Fin (margin est)) (Fin 100) = Fin (margin est * 100)"
    by (simp add: stays_finite_def fl_in_range)
  then show ?thesis
    using ne unfolding compute_row_f_def compute_row_def ef est
    by (simp add: estimate_f_of_def row_f_of_def listing_f_def)
qed

end
